theory Spec2Isabelle
  imports Main "HOL-Library.Sublist"
begin

section \<open>Constants of CreateLambda.py\<close>

definition VERSION :: string where
  "VERSION = ''v0.21''"

definition CF_STACKNAME_LAMBDA :: string where
  "CF_STACKNAME_LAMBDA = ''LambdaFunction''"

definition CF_STACKNAME_LAMBDA_S3 :: string where
  "CF_STACKNAME_LAMBDA_S3 = ''LambdaS3Bucket''"

definition CF_STACKNAME_BOOTSTRAP_S3 :: string where
  "CF_STACKNAME_BOOTSTRAP_S3 = ''BootstrapS3Bucket''"

definition CF_LAMBDA_S3_BUCKET_NAME :: string where
  "CF_LAMBDA_S3_BUCKET_NAME = ''generic-lambda-functions-01234''"

definition CF_BOOTSTRAP_S3_BUCKET_NAME :: string where
  "CF_BOOTSTRAP_S3_BUCKET_NAME = ''generic-bootstrap-bucket-01234''"

definition CF_LAMBDA_SOURCE :: string where
  "CF_LAMBDA_SOURCE = ''test.zip''"

definition CF_TEMPLATE_S3 :: string where
  "CF_TEMPLATE_S3 = ''CreateS3Bucket.yaml''"

definition CF_TEMPLATE_LAMBDA :: string where
  "CF_TEMPLATE_LAMBDA = ''CreateLambdaFunction.yaml''"

text \<open>
  The inline template \<^verbatim>\<open>CF_TEMPLATE_BOOTSTRAP_S3\<close> has the single replacement field
  \<^verbatim>\<open>{bucketName}\<close>; the only use of the constant is
  \<^verbatim>\<open>CF_TEMPLATE_BOOTSTRAP_S3.format(bucketName=...)\<close>, so the constant is modelled as the
  function of the field's value that \<^verbatim>\<open>format\<close> computes. Every line of the literal ends
  with a newline.
\<close>

definition unlines :: "string list \<Rightarrow> string" where
  "unlines ls = concat (map (\<lambda>l. l @ [CHR 0x0A]) ls)"

definition CF_TEMPLATE_BOOTSTRAP_S3 :: "string \<Rightarrow> string" where
  \<open>CF_TEMPLATE_BOOTSTRAP_S3 bucketName = unlines
    [ ''---'',
      ''Resources:'',
      ''  DocS3BootstrapBucket:'',
      ''    Type: AWS::S3::Bucket'',
      ''    Properties:'',
      ''      BucketName: '' @ bucketName,
      ''      Tags:'',
      ''        - Key: "Documentation"'',
      ''          Value: "Documentation"'',
      '''',
      ''  # Allow CF templates to perform all S3 operations on this bucket'',
      ''  DocBucketAccessPolicy:'',
      ''    Type: AWS::S3::BucketPolicy'',
      ''    Properties:'',
      ''      Bucket:'',
      ''        Ref: "DocS3BootstrapBucket"'',
      ''      PolicyDocument:'',
      ''        Statement:'',
      ''          - Action: "*"'',
      ''            Effect: "Allow"'',
      ''            Resource:'',
      ''              Fn::Join:'',
      ''              - ""'',
      ''              - - "arn:aws:s3:::"'',
      ''                - Ref: "DocS3BootstrapBucket"'',
      ''                - "/*"'',
      ''            Principal:'',
      ''              Service:'',
      ''              - cloudformation.amazonaws.com'' ]\<close>

text \<open>
  \<^verbatim>\<open>'https://s3.amazonaws.com/{bucket}/{template}'.format(bucket=b, template=t)\<close>,
  the remote template reference of an object \<open>t\<close> in bucket \<open>b\<close>.
\<close>

definition s3_url :: "string \<Rightarrow> string \<Rightarrow> string" where
  "s3_url bucket template = ''https://s3.amazonaws.com/'' @ bucket @ ''/'' @ template"

text \<open>
  The progress lines, each the value of the \<^verbatim>\<open>format\<close> call that builds it:
  \<^verbatim>\<open>'Creating CloudFormation stack: {stack}, S3 bucket: {bucket}...'\<close>,
  \<^verbatim>\<open>'Uploading {template} to {bucket} bucket...'\<close> (also with the field \<^verbatim>\<open>{source}\<close>),
  \<^verbatim>\<open>'Creating CloudFormation stack: {stack}...'\<close>,
  \<^verbatim>\<open>'Deleting CloudFormation stack: {}...'\<close> and the literal \<^verbatim>\<open>'Emptying all buckets...'\<close>.
\<close>

definition msg_creating_bucket :: "string \<Rightarrow> string \<Rightarrow> string" where
  "msg_creating_bucket stack bucket =
     ''Creating CloudFormation stack: '' @ stack @ '', S3 bucket: '' @ bucket @ ''...''"

definition msg_uploading :: "string \<Rightarrow> string \<Rightarrow> string" where
  "msg_uploading template bucket = ''Uploading '' @ template @ '' to '' @ bucket @ '' bucket...''"

definition msg_creating :: "string \<Rightarrow> string" where
  "msg_creating stack = ''Creating CloudFormation stack: '' @ stack @ ''...''"

definition msg_deleting :: "string \<Rightarrow> string" where
  "msg_deleting stack_name = ''Deleting CloudFormation stack: '' @ stack_name @ ''...''"

definition msg_emptying :: string where
  "msg_emptying = ''Emptying all buckets...''"


text \<open>The names of the two waiters, and the capability of the deploy stack.\<close>

definition stack_create_complete :: string where
  "stack_create_complete = ''stack_create_complete''"

definition stack_delete_complete :: string where
  "stack_delete_complete = ''stack_delete_complete''"

definition CAPABILITY_IAM :: string where
  "CAPABILITY_IAM = ''CAPABILITY_IAM''"


section \<open>Python values and exceptions\<close>

text \<open>
  The exceptions the script names (\<^verbatim>\<open>ClientError\<close> with the fields
  \<^verbatim>\<open>response['Error']['Code']\<close> and \<^verbatim>\<open>response['Error']['Message']\<close>,
  \<^verbatim>\<open>WaiterError\<close>), the two the interpreter raises by itself in this script
  (\<^verbatim>\<open>TypeError\<close>, \<^verbatim>\<open>KeyError\<close>), and any other exception a library call may raise.
\<close>

datatype exn =
    is_ClientError: ClientError (error_code: string) (error_message: string)
  | is_WaiterError: WaiterError string
  | TypeError
  | KeyError string
  | OtherError string

text \<open>
  The operands of the \<^verbatim>\<open>+\<close> in the script's error messages are a string literal and
  either a string or the caught exception object. Python's \<^verbatim>\<open>str + str\<close> concatenates;
  \<^verbatim>\<open>str + exception\<close> raises \<^verbatim>\<open>TypeError\<close> (the exception classes define no
  \<^verbatim>\<open>__radd__\<close>).
\<close>

datatype pyval = Str string | Exc exn

fun py_add :: "pyval \<Rightarrow> pyval \<Rightarrow> exn + string" where
  "py_add (Str a) (Str b) = Inr (a @ b)"
| "py_add (Str a) (Exc e) = Inl TypeError"
| "py_add (Exc e) v = Inl TypeError"


section \<open>The cloud provider and the observable trace\<close>

datatype template_source = TemplateBody string | TemplateURL string

text \<open>
  Every request the script sends and every line it prints is an event.
  \<open>CreateStack name template capabilities\<close> carries \<open>[]\<close> when the call passes no
  \<^verbatim>\<open>Capabilities\<close> argument; \<open>WaiterWait waiter name delay max_attempts\<close> is
  \<^verbatim>\<open>get_waiter(waiter).wait(StackName=name, WaiterConfig={'Delay':.., 'MaxAttempts':..})\<close>;
  \<open>UploadFile filename bucket key\<close>; \<open>Inspect\<close> stands for the read-only block of
  describe/get calls that ends a successful create run.
\<close>

datatype event =
    Print string
  | CreateStack string template_source "string list"
  | WaiterWait string string int int
  | UploadFile string string string
  | ListObjectsV2 string
  | DeleteObjects string "string list"
  | is_DeleteStack: DeleteStack string
  | Inspect

text \<open>
  The response of \<^verbatim>\<open>list_objects_v2\<close>, as far as the script reads it: the entry
  \<^verbatim>\<open>'KeyCount'\<close>, and the entry \<^verbatim>\<open>'Contents'\<close> (absent, or the list of the objects, of
  which the script reads \<^verbatim>\<open>obj['Key']\<close> only).
\<close>

record list_response =
  KeyCount :: int
  Contents :: "string list option"

text \<open>
  The services behind \<^verbatim>\<open>boto3\<close> are not part of the repository. They are a parameter:
  a provider over a state \<open>'s\<close> of its own answers each request with a result (an exception
  raised, or a return) and a new provider state.
\<close>

record 's provider =
  cf_create_stack :: "string \<Rightarrow> template_source \<Rightarrow> string list \<Rightarrow> 's \<Rightarrow> exn option \<times> 's"
  cf_waiter_wait :: "string \<Rightarrow> string \<Rightarrow> int \<Rightarrow> int \<Rightarrow> 's \<Rightarrow> exn option \<times> 's"
  cf_delete_stack :: "string \<Rightarrow> 's \<Rightarrow> exn option \<times> 's"
  s3_upload_file :: "string \<Rightarrow> string \<Rightarrow> string \<Rightarrow> 's \<Rightarrow> exn option \<times> 's"
  s3_list_objects_v2 :: "string \<Rightarrow> 's \<Rightarrow> (exn + list_response) \<times> 's"
  s3_delete_objects :: "string \<Rightarrow> string list \<Rightarrow> 's \<Rightarrow> exn option \<times> 's"
  inspect_resources :: "'s \<Rightarrow> exn option \<times> 's"

text \<open>
  A run threads the provider state and the trace; each event is recorded with the
  provider state in which it was issued.
\<close>

record 's world =
  aws :: 's
  trace :: "(event \<times> 's) list"

definition init :: "'s \<Rightarrow> 's world" where
  "init s = \<lparr>aws = s, trace = []\<rparr>"

definition events :: "'s world \<Rightarrow> event list" where
  "events w = map fst (trace w)"

definition py_print :: "string \<Rightarrow> 's world \<Rightarrow> 's world" where
  "py_print m w = w\<lparr>trace := trace w @ [(Print m, aws w)]\<rparr>"

definition request :: "event \<Rightarrow> ('s \<Rightarrow> 'r \<times> 's) \<Rightarrow> 's world \<Rightarrow> 'r \<times> 's world" where
  "request ev f w =
     (case f (aws w) of (r, s') \<Rightarrow> (r, \<lparr>aws = s', trace = trace w @ [(ev, aws w)]\<rparr>))"

text \<open>
  \<^verbatim>\<open>aws.client(service)\<close> and \<^verbatim>\<open>get_waiter(name)\<close> build local objects and send
  nothing; a client is the name of its service.
\<close>

datatype client = Client string

definition aws_client :: "string \<Rightarrow> client" where
  "aws_client service = Client service"


section \<open>The exception handlers\<close>

text \<open>
  \<^verbatim>\<open>print('ERROR: ' + x)\<close>: the argument is evaluated first; when the addition raises,
  nothing is printed and the exception leaves the handler.
\<close>

definition print_error :: "pyval \<Rightarrow> 's world \<Rightarrow> exn option \<times> 's world" where
  "print_error x w =
     (case py_add (Str ''ERROR: '') x of
        Inl e \<Rightarrow> (Some e, w)
      | Inr m \<Rightarrow> (None, py_print m w))"

text \<open>
  The body of \<^verbatim>\<open>except ClientError as e:\<close> after each of the three
  \<^verbatim>\<open>create_stack\<close> calls (the same text at lines 113-120, 153-160 and 212-219).
\<close>

definition except_ClientError_create :: "exn \<Rightarrow> 's world \<Rightarrow> (exn + int) \<times> 's world" where
  "except_ClientError_create e w =
     (case (if error_code e = ''AlreadyExistsException''
            then print_error (Str (error_message e)) w
            else print_error (Exc e) w) of
        (Some e', w') \<Rightarrow> (Inl e', w')
      | (None, w') \<Rightarrow> (Inr (- 1), w'))"

text \<open>
  The body \<^verbatim>\<open>print('ERROR: ' + e); return -1\<close> of the handlers of the waits and uploads.
\<close>

definition except_print_return :: "exn \<Rightarrow> 's world \<Rightarrow> (exn + int) \<times> 's world" where
  "except_print_return e w =
     (case print_error (Exc e) w of
        (Some e', w') \<Rightarrow> (Inl e', w')
      | (None, w') \<Rightarrow> (Inr (- 1), w'))"


section \<open>create_s3_bucket\<close>

text \<open>
  A function of the script yields \<open>Inr r\<close> when it returns \<open>r\<close> and \<open>Inl e\<close> when the
  exception \<open>e\<close> leaves it. An exception that the \<^verbatim>\<open>except\<close> clause of its
  \<^verbatim>\<open>try\<close> does not name leaves the function.
\<close>

definition create_s3_bucket :: "'s provider \<Rightarrow> 's world \<Rightarrow> (exn + int) \<times> 's world" where
  "create_s3_bucket P w0 =
    (let w1 = py_print (msg_creating_bucket CF_STACKNAME_BOOTSTRAP_S3 CF_BOOTSTRAP_S3_BUCKET_NAME) w0;
         cf = aws_client ''cloudformation''
     in case request (CreateStack CF_STACKNAME_BOOTSTRAP_S3
                        (TemplateBody (CF_TEMPLATE_BOOTSTRAP_S3 CF_BOOTSTRAP_S3_BUCKET_NAME)) [])
               (cf_create_stack P CF_STACKNAME_BOOTSTRAP_S3
                        (TemplateBody (CF_TEMPLATE_BOOTSTRAP_S3 CF_BOOTSTRAP_S3_BUCKET_NAME)) []) w1 of
       (Some e, w2) \<Rightarrow>
         if is_ClientError e then except_ClientError_create e w2 else (Inl e, w2)
     | (None, w2) \<Rightarrow>
    (case request (WaiterWait stack_create_complete CF_STACKNAME_BOOTSTRAP_S3 5 12)
               (cf_waiter_wait P stack_create_complete CF_STACKNAME_BOOTSTRAP_S3 5 12) w2 of
       (Some e, w3) \<Rightarrow>
         if is_WaiterError e then except_print_return e w3 else (Inl e, w3)
     | (None, w3) \<Rightarrow>
    (let w4 = py_print (msg_uploading CF_TEMPLATE_S3 CF_BOOTSTRAP_S3_BUCKET_NAME) w3;
         s3 = aws_client ''s3''
     in case request (UploadFile CF_TEMPLATE_S3 CF_BOOTSTRAP_S3_BUCKET_NAME CF_TEMPLATE_S3)
               (s3_upload_file P CF_TEMPLATE_S3 CF_BOOTSTRAP_S3_BUCKET_NAME CF_TEMPLATE_S3) w4 of
       (Some e, w5) \<Rightarrow>
         if is_ClientError e then except_print_return e w5 else (Inl e, w5)
     | (None, w5) \<Rightarrow>
    (let w6 = py_print (msg_creating_bucket CF_STACKNAME_LAMBDA_S3 CF_LAMBDA_S3_BUCKET_NAME) w5
     in case request (CreateStack CF_STACKNAME_LAMBDA_S3
                        (TemplateURL (s3_url CF_BOOTSTRAP_S3_BUCKET_NAME CF_TEMPLATE_S3)) [])
               (cf_create_stack P CF_STACKNAME_LAMBDA_S3
                        (TemplateURL (s3_url CF_BOOTSTRAP_S3_BUCKET_NAME CF_TEMPLATE_S3)) []) w6 of
       (Some e, w7) \<Rightarrow>
         if is_ClientError e then except_ClientError_create e w7 else (Inl e, w7)
     | (None, w7) \<Rightarrow>
    (case request (WaiterWait stack_create_complete CF_STACKNAME_LAMBDA_S3 5 12)
               (cf_waiter_wait P stack_create_complete CF_STACKNAME_LAMBDA_S3 5 12) w7 of
       (Some e, w8) \<Rightarrow>
         if is_WaiterError e then except_print_return e w8 else (Inl e, w8)
     | (None, w8) \<Rightarrow>
    (let w9 = py_print (msg_uploading CF_TEMPLATE_LAMBDA CF_LAMBDA_S3_BUCKET_NAME) w8
     in case request (UploadFile CF_TEMPLATE_LAMBDA CF_LAMBDA_S3_BUCKET_NAME CF_TEMPLATE_LAMBDA)
               (s3_upload_file P CF_TEMPLATE_LAMBDA CF_LAMBDA_S3_BUCKET_NAME CF_TEMPLATE_LAMBDA) w9 of
       (Some e, w10) \<Rightarrow>
         if is_ClientError e then except_print_return e w10 else (Inl e, w10)
     | (None, w10) \<Rightarrow> (Inr 0, w10)))))))"


section \<open>create_lambda\<close>

definition create_lambda :: "'s provider \<Rightarrow> 's world \<Rightarrow> (exn + int) \<times> 's world" where
  "create_lambda P w0 =
    (let w1 = py_print (msg_uploading CF_LAMBDA_SOURCE CF_LAMBDA_S3_BUCKET_NAME) w0;
         s3 = aws_client ''s3''
     in case request (UploadFile CF_LAMBDA_SOURCE CF_LAMBDA_S3_BUCKET_NAME CF_LAMBDA_SOURCE)
               (s3_upload_file P CF_LAMBDA_SOURCE CF_LAMBDA_S3_BUCKET_NAME CF_LAMBDA_SOURCE) w1 of
       (Some e, w2) \<Rightarrow>
         if is_ClientError e then except_print_return e w2 else (Inl e, w2)
     | (None, w2) \<Rightarrow>
    (let w3 = py_print (msg_creating CF_STACKNAME_LAMBDA) w2;
         cf = aws_client ''cloudformation''
     in case request (CreateStack CF_STACKNAME_LAMBDA
                        (TemplateURL (s3_url CF_LAMBDA_S3_BUCKET_NAME CF_TEMPLATE_LAMBDA))
                        [CAPABILITY_IAM])
               (cf_create_stack P CF_STACKNAME_LAMBDA
                        (TemplateURL (s3_url CF_LAMBDA_S3_BUCKET_NAME CF_TEMPLATE_LAMBDA))
                        [CAPABILITY_IAM]) w3 of
       (Some e, w4) \<Rightarrow>
         if is_ClientError e then except_ClientError_create e w4 else (Inl e, w4)
     | (None, w4) \<Rightarrow>
    (case request (WaiterWait stack_create_complete CF_STACKNAME_LAMBDA 5 24)
               (cf_waiter_wait P stack_create_complete CF_STACKNAME_LAMBDA 5 24) w4 of
       (Some e, w5) \<Rightarrow>
         if is_WaiterError e then except_print_return e w5 else (Inl e, w5)
     | (None, w5) \<Rightarrow> (Inr 0, w5))))"


section \<open>delete_cf_stack\<close>

text \<open>
  \<^verbatim>\<open>delete_cf_stack(stack_name, cf_client=None, wait_delay=5, wait_max_attempts=12,
  verbose=True)\<close>. The \<^verbatim>\<open>delete_stack\<close> request is outside the \<^verbatim>\<open>try\<close>; the handler
  of the wait prints only when \<^verbatim>\<open>verbose\<close> holds and then returns \<open>-1\<close>.
\<close>

definition delete_cf_stack ::
  "'s provider \<Rightarrow> string \<Rightarrow> client option \<Rightarrow> int \<Rightarrow> int \<Rightarrow> bool \<Rightarrow> 's world
     \<Rightarrow> (exn + int) \<times> 's world" where
  "delete_cf_stack P stack_name cf_client wait_delay wait_max_attempts verbose w0 =
    (let w1 = (if verbose then py_print (msg_deleting stack_name) w0 else w0);
         cf_client' = (case cf_client of None \<Rightarrow> aws_client ''cloudformation'' | Some c \<Rightarrow> c)
     in case request (DeleteStack stack_name) (cf_delete_stack P stack_name) w1 of
       (Some e, w2) \<Rightarrow> (Inl e, w2)
     | (None, w2) \<Rightarrow>
    (case request (WaiterWait stack_delete_complete stack_name wait_delay wait_max_attempts)
               (cf_waiter_wait P stack_delete_complete stack_name wait_delay wait_max_attempts)
               w2 of
       (Some e, w3) \<Rightarrow>
         if is_WaiterError e
         then (if verbose then except_print_return e w3 else (Inr (- 1), w3))
         else (Inl e, w3)
     | (None, w3) \<Rightarrow> (Inr 0, w3)))"


section \<open>delete_cloudformation_stacks\<close>

text \<open>
  The emptying of one bucket (the same text at lines 273-276 and 279-282): the listing, the
  test of \<^verbatim>\<open>objects['KeyCount']\<close> (an integer is true when it is not 0), the keys of
  \<^verbatim>\<open>objects['Contents']\<close> (a \<^verbatim>\<open>KeyError\<close> when the entry is absent) and the one
  \<^verbatim>\<open>delete_objects\<close> request. No \<^verbatim>\<open>try\<close> encloses it.
\<close>

definition empty_bucket :: "'s provider \<Rightarrow> string \<Rightarrow> 's world \<Rightarrow> exn option \<times> 's world" where
  "empty_bucket P bucket w0 =
    (case request (ListObjectsV2 bucket) (s3_list_objects_v2 P bucket) w0 of
       (Inl e, w1) \<Rightarrow> (Some e, w1)
     | (Inr objects, w1) \<Rightarrow>
         if KeyCount objects \<noteq> 0
         then (case Contents objects of
                 None \<Rightarrow> (Some (KeyError ''Contents''), w1)
               | Some keys \<Rightarrow>
                   request (DeleteObjects bucket keys) (s3_delete_objects P bucket keys) w1)
         else (None, w1))"

text \<open>
  \<^verbatim>\<open>a or b or c\<close> evaluates \<open>b\<close> only when \<open>a\<close> is 0, and \<open>c\<close> only when \<open>b\<close> is 0 too.
\<close>

definition delete_cloudformation_stacks ::
  "'s provider \<Rightarrow> 's world \<Rightarrow> (exn + int) \<times> 's world" where
  "delete_cloudformation_stacks P w0 =
    (let w1 = py_print msg_emptying w0;
         s3 = aws_client ''s3''
     in case empty_bucket P CF_BOOTSTRAP_S3_BUCKET_NAME w1 of
       (Some e, w2) \<Rightarrow> (Inl e, w2)
     | (None, w2) \<Rightarrow>
    (case empty_bucket P CF_LAMBDA_S3_BUCKET_NAME w2 of
       (Some e, w3) \<Rightarrow> (Inl e, w3)
     | (None, w3) \<Rightarrow>
    (let cf = aws_client ''cloudformation''
     in case delete_cf_stack P CF_STACKNAME_LAMBDA (Some cf) 5 24 True w3 of
       (Inl e, w4) \<Rightarrow> (Inl e, w4)
     | (Inr r1, w4) \<Rightarrow>
         if r1 \<noteq> 0 then (Inr (- 1), w4) else
    (case delete_cf_stack P CF_STACKNAME_LAMBDA_S3 (Some cf) 5 12 True w4 of
       (Inl e, w5) \<Rightarrow> (Inl e, w5)
     | (Inr r2, w5) \<Rightarrow>
         if r2 \<noteq> 0 then (Inr (- 1), w5) else
    (case delete_cf_stack P CF_STACKNAME_BOOTSTRAP_S3 (Some cf) 5 12 True w5 of
       (Inl e, w6) \<Rightarrow> (Inl e, w6)
     | (Inr r3, w6) \<Rightarrow>
         if r3 \<noteq> 0 then (Inr (- 1), w6) else (Inr 0, w6))))))"


section \<open>The program entry point\<close>

text \<open>
  The process ends by \<^verbatim>\<open>exit(n)\<close> or by an exception that nothing catches. The
  exit status that the operating system sees is the low eight bits of \<open>n\<close> (255 for
  \<^verbatim>\<open>exit(-1)\<close>) in the first case, and 1 in the second. \<open>delete_stacks\<close> is the parsed
  \<^verbatim>\<open>-d\<close>/\<^verbatim>\<open>--delete\<close> flag.
\<close>

datatype proc_end = Exit int | Uncaught exn

fun exit_status :: "proc_end \<Rightarrow> int" where
  "exit_status (Exit n) = n mod 256"
| "exit_status (Uncaught e) = 1"

definition splash :: "'s world \<Rightarrow> 's world" where
  "splash w =
     py_print (replicate 48 CHR ''='' @ [CHR 0x0A])
       (py_print (''Create Lambda Function with CloudFormation'' @ '' '' @ VERSION)
         (py_print (replicate 48 CHR ''='') w))"

definition main :: "'s provider \<Rightarrow> bool \<Rightarrow> 's world \<Rightarrow> proc_end \<times> 's world" where
  "main P delete_stacks w0 =
    (let w1 = splash w0
     in if delete_stacks
        then (case delete_cloudformation_stacks P w1 of
                (Inl e, w2) \<Rightarrow> (Uncaught e, w2)
              | (Inr r, w2) \<Rightarrow> if r \<noteq> 0 then (Exit (- 1), w2) else (Exit 0, w2))
        else
    (case create_s3_bucket P w1 of
       (Inl e, w2) \<Rightarrow> (Uncaught e, w2)
     | (Inr r, w2) \<Rightarrow>
         if r \<noteq> 0 then (Exit (- 1), w2) else
    (case create_lambda P w2 of
       (Inl e, w3) \<Rightarrow> (Uncaught e, w3)
     | (Inr r', w3) \<Rightarrow>
         if r' \<noteq> 0 then (Exit (- 1), w3) else
    (case request Inspect (inspect_resources P) w3 of
       (Some e, w4) \<Rightarrow> (Uncaught e, w4)
     | (None, w4) \<Rightarrow> (Exit 0, w4)))))"


section \<open>Reading a trace\<close>

text \<open>
  The requests of a run are its events other than the printed lines. \<open>perform P ev s\<close> is
  the provider's answer to the request \<open>ev\<close> in the state \<open>s\<close> (the exception it raises,
  or \<open>None\<close>) with its next state, and \<open>raised P ev s\<close> the exception alone. Since the
  trace records the state in which each request was issued, this is the answer the run
  received.
\<close>

fun is_request :: "event \<Rightarrow> bool" where
  "is_request (Print m) = False"
| "is_request ev = True"

fun is_s3_request :: "event \<Rightarrow> bool" where
  "is_s3_request (ListObjectsV2 b) = True"
| "is_s3_request (DeleteObjects b ks) = True"
| "is_s3_request ev = False"

fun deletes_objects_of :: "string \<Rightarrow> event \<Rightarrow> bool" where
  "deletes_objects_of b (DeleteObjects b' ks) = (b' = b)"
| "deletes_objects_of b ev = False"

fun is_error_line :: "event \<Rightarrow> bool" where
  "is_error_line (Print m) = (take 7 m = ''ERROR: '')"
| "is_error_line ev = False"

definition requests :: "'s world \<Rightarrow> (event \<times> 's) list" where
  "requests w = filter (\<lambda>x. is_request (fst x)) (trace w)"

fun perform :: "'s provider \<Rightarrow> event \<Rightarrow> 's \<Rightarrow> exn option \<times> 's" where
  "perform P (Print m) s = (None, s)"
| "perform P (CreateStack n t c) s = cf_create_stack P n t c s"
| "perform P (WaiterWait wn n d m) s = cf_waiter_wait P wn n d m s"
| "perform P (UploadFile f b k) s = s3_upload_file P f b k s"
| "perform P (ListObjectsV2 b) s =
     (case s3_list_objects_v2 P b s of
        (Inl e, s') \<Rightarrow> (Some e, s')
      | (Inr r, s') \<Rightarrow> (None, s'))"
| "perform P (DeleteObjects b ks) s = s3_delete_objects P b ks s"
| "perform P (DeleteStack n) s = cf_delete_stack P n s"
| "perform P Inspect s = inspect_resources P s"

definition raised :: "'s provider \<Rightarrow> event \<Rightarrow> 's \<Rightarrow> exn option" where
  "raised P ev s = fst (perform P ev s)"

text \<open>The keys a listing response lists, and the response in which \<^verbatim>\<open>KeyCount\<close> counts them.\<close>

definition listed_keys :: "list_response \<Rightarrow> string list" where
  "listed_keys r = (case Contents r of None \<Rightarrow> [] | Some ks \<Rightarrow> ks)"

definition counts_its_keys :: "list_response \<Rightarrow> bool" where
  "counts_its_keys r \<longleftrightarrow> KeyCount r = int (length (listed_keys r))"


section \<open>Straight-line code as a list of steps\<close>

text \<open>
  Every function of the script except the emptying of a bucket is a sequence of steps of
  one shape: an optional progress line, one request, and a handler for the exception the
  request may raise; the first exception ends the function. The handlers are the
  \<^verbatim>\<open>except\<close> clauses of the script: none (the exception leaves the function), the
  clause of a \<^verbatim>\<open>create_stack\<close> call, the clause of an upload (\<^verbatim>\<open>ClientError\<close>), the
  clause of a creation wait (\<^verbatim>\<open>WaiterError\<close>), and the clause of the deletion wait with
  its \<^verbatim>\<open>verbose\<close> flag.
\<close>

datatype handler =
    No_handler
  | Create_handler
  | ClientError_handler
  | WaiterError_handler
  | Delete_wait_handler bool

fun handle :: "handler \<Rightarrow> exn \<Rightarrow> 's world \<Rightarrow> (exn + int) \<times> 's world" where
  "handle No_handler e w = (Inl e, w)"
| "handle Create_handler e w =
     (if is_ClientError e then except_ClientError_create e w else (Inl e, w))"
| "handle ClientError_handler e w =
     (if is_ClientError e then except_print_return e w else (Inl e, w))"
| "handle WaiterError_handler e w =
     (if is_WaiterError e then except_print_return e w else (Inl e, w))"
| "handle (Delete_wait_handler verbose) e w =
     (if is_WaiterError e
      then (if verbose then except_print_return e w else (Inr (- 1), w))
      else (Inl e, w))"

type_synonym step = "string option \<times> event \<times> handler"

definition step_event :: "step \<Rightarrow> event" where
  "step_event st = fst (snd st)"

fun run_steps :: "'s provider \<Rightarrow> step list \<Rightarrow> 's world \<Rightarrow> (exn + int) \<times> 's world" where
  "run_steps P [] w = (Inr 0, w)"
| "run_steps P ((line, ev, h) # rest) w =
     (case request ev (perform P ev) (case line of None \<Rightarrow> w | Some m \<Rightarrow> py_print m w) of
        (Some e, w') \<Rightarrow> handle h e w'
      | (None, w') \<Rightarrow> run_steps P rest w')"

text \<open>
  The requests that a sequence sends from the provider state \<open>s\<close>, each with the state in
  which it is sent: the sequence stops after the first request that raises. \<open>all_ok\<close>
  holds when none raises, and \<open>final_state\<close> is the provider state after the last request
  sent.
\<close>

fun issued :: "'s provider \<Rightarrow> event list \<Rightarrow> 's \<Rightarrow> (event \<times> 's) list" where
  "issued P [] s = []"
| "issued P (ev # evs) s =
     (ev, s) # (case perform P ev s of (Some e, s') \<Rightarrow> [] | (None, s') \<Rightarrow> issued P evs s')"

fun all_ok :: "'s provider \<Rightarrow> event list \<Rightarrow> 's \<Rightarrow> bool" where
  "all_ok P [] s = True"
| "all_ok P (ev # evs) s =
     (case perform P ev s of (Some e, s') \<Rightarrow> False | (None, s') \<Rightarrow> all_ok P evs s')"

fun final_state :: "'s provider \<Rightarrow> event list \<Rightarrow> 's \<Rightarrow> 's" where
  "final_state P [] s = s"
| "final_state P (ev # evs) s =
     (case perform P ev s of (Some e, s') \<Rightarrow> s' | (None, s') \<Rightarrow> final_state P evs s')"

text \<open>
  The requests that the emptying of the bucket \<open>b\<close> sends from the provider state \<open>s\<close>:
  the listing, and the batch deletion when the listing returned a response with a
  \<^verbatim>\<open>KeyCount\<close> other than 0 and an entry \<^verbatim>\<open>Contents\<close>.
\<close>

definition emptying :: "'s provider \<Rightarrow> string \<Rightarrow> 's \<Rightarrow> (event \<times> 's) list" where
  "emptying P b s =
     (ListObjectsV2 b, s) #
     (case fst (s3_list_objects_v2 P b s) of
        Inl e \<Rightarrow> []
      | Inr r \<Rightarrow>
          if KeyCount r \<noteq> 0
          then (case Contents r of
                  None \<Rightarrow> []
                | Some ks \<Rightarrow> [(DeleteObjects b ks, snd (s3_list_objects_v2 P b s))])
          else [])"

definition bootstrap_build_steps :: "step list" where
  "bootstrap_build_steps =
     [(Some (msg_creating_bucket CF_STACKNAME_BOOTSTRAP_S3 CF_BOOTSTRAP_S3_BUCKET_NAME),
       CreateStack CF_STACKNAME_BOOTSTRAP_S3
         (TemplateBody (CF_TEMPLATE_BOOTSTRAP_S3 CF_BOOTSTRAP_S3_BUCKET_NAME)) [],
       Create_handler),
      (None,
       WaiterWait stack_create_complete CF_STACKNAME_BOOTSTRAP_S3 5 12,
       WaiterError_handler),
      (Some (msg_uploading CF_TEMPLATE_S3 CF_BOOTSTRAP_S3_BUCKET_NAME),
       UploadFile CF_TEMPLATE_S3 CF_BOOTSTRAP_S3_BUCKET_NAME CF_TEMPLATE_S3,
       ClientError_handler),
      (Some (msg_creating_bucket CF_STACKNAME_LAMBDA_S3 CF_LAMBDA_S3_BUCKET_NAME),
       CreateStack CF_STACKNAME_LAMBDA_S3
         (TemplateURL (s3_url CF_BOOTSTRAP_S3_BUCKET_NAME CF_TEMPLATE_S3)) [],
       Create_handler),
      (None,
       WaiterWait stack_create_complete CF_STACKNAME_LAMBDA_S3 5 12,
       WaiterError_handler),
      (Some (msg_uploading CF_TEMPLATE_LAMBDA CF_LAMBDA_S3_BUCKET_NAME),
       UploadFile CF_TEMPLATE_LAMBDA CF_LAMBDA_S3_BUCKET_NAME CF_TEMPLATE_LAMBDA,
       ClientError_handler)]"

definition deploy_steps :: "step list" where
  "deploy_steps =
     [(Some (msg_uploading CF_LAMBDA_SOURCE CF_LAMBDA_S3_BUCKET_NAME),
       UploadFile CF_LAMBDA_SOURCE CF_LAMBDA_S3_BUCKET_NAME CF_LAMBDA_SOURCE,
       ClientError_handler),
      (Some (msg_creating CF_STACKNAME_LAMBDA),
       CreateStack CF_STACKNAME_LAMBDA
         (TemplateURL (s3_url CF_LAMBDA_S3_BUCKET_NAME CF_TEMPLATE_LAMBDA)) [CAPABILITY_IAM],
       Create_handler),
      (None,
       WaiterWait stack_create_complete CF_STACKNAME_LAMBDA 5 24,
       WaiterError_handler)]"

definition delete_steps :: "string \<Rightarrow> int \<Rightarrow> int \<Rightarrow> bool \<Rightarrow> step list" where
  "delete_steps stack_name wait_delay wait_max_attempts verbose =
     [(if verbose then Some (msg_deleting stack_name) else None,
       DeleteStack stack_name,
       No_handler),
      (None,
       WaiterWait stack_delete_complete stack_name wait_delay wait_max_attempts,
       Delete_wait_handler verbose)]"

definition teardown_steps :: "step list" where
  "teardown_steps =
     delete_steps CF_STACKNAME_LAMBDA 5 24 True
     @ delete_steps CF_STACKNAME_LAMBDA_S3 5 12 True
     @ delete_steps CF_STACKNAME_BOOTSTRAP_S3 5 12 True"


section \<open>A simulated provider for concrete runs\<close>

text \<open>
  Modelled from the spec: the templates \<^verbatim>\<open>CreateS3Bucket.yaml\<close> and
  \<^verbatim>\<open>CreateLambdaFunction.yaml\<close> are not among the sources; by the header of the script
  and the note at its bucket names, the stack \<^verbatim>\<open>BootstrapS3Bucket\<close> creates the bootstrap
  bucket, the stack \<^verbatim>\<open>LambdaS3Bucket\<close> the Lambda bucket, and \<^verbatim>\<open>LambdaFunction\<close> no bucket.
\<close>

definition stack_bucket :: "string \<Rightarrow> string option" where
  "stack_bucket name =
     (if name = CF_STACKNAME_BOOTSTRAP_S3 then Some CF_BOOTSTRAP_S3_BUCKET_NAME
      else if name = CF_STACKNAME_LAMBDA_S3 then Some CF_LAMBDA_S3_BUCKET_NAME
      else None)"

record sim_state =
  stacks :: "string list"
  buckets :: "string \<Rightarrow> string list option"

definition no_such_bucket :: exn where
  "no_such_bucket = ClientError ''NoSuchBucket'' ''The specified bucket does not exist''"

text \<open>
  \<^verbatim>\<open>upload_file\<close> does not raise \<^verbatim>\<open>ClientError\<close>: the transfer layer of the library
  reports a failed upload as \<^verbatim>\<open>S3UploadFailedError\<close>, which is not a subclass of it.
\<close>

definition upload_failed :: exn where
  "upload_failed = OtherError ''S3UploadFailedError''"

text \<open>
  The simulated provider follows sections 4.2, 4.3 and 6 of the specification: a stack
  name is unique; a completed creation brings the stack's bucket into being, empty; an
  upload adds its key to an existing bucket and fails for a bucket that does not exist; a
  listing lists every key of the bucket (the buckets of its runs fit in one response);
  a batch deletion removes the keys it names; the deletion of an absent stack completes at
  once, the deletion of a stack whose bucket holds objects fails, and a completed deletion
  removes the stack and its bucket. The \<open>script\<close> comes first: it can make any request
  raise (a timeout, a rejection).
\<close>

definition sim :: "(event \<Rightarrow> exn option) \<Rightarrow> sim_state provider" where
  "sim script =
    \<lparr> cf_create_stack = (\<lambda>name tmpl caps s.
        case script (CreateStack name tmpl caps) of
          Some e \<Rightarrow> (Some e, s)
        | None \<Rightarrow>
            if name \<in> set (stacks s)
            then (Some (ClientError ''AlreadyExistsException''
                          (''Stack ['' @ name @ ''] already exists'')), s)
            else (None, s\<lparr>stacks := name # stacks s\<rparr>)),
      cf_waiter_wait = (\<lambda>waiter name delay max_attempts s.
        case script (WaiterWait waiter name delay max_attempts) of
          Some e \<Rightarrow> (Some e, s)
        | None \<Rightarrow>
            if waiter = stack_create_complete
            then (case stack_bucket name of
                    None \<Rightarrow> (None, s)
                  | Some b \<Rightarrow> (None, s\<lparr>buckets := (buckets s)(b \<mapsto> [])\<rparr>))
            else if name \<notin> set (stacks s) then (None, s)
            else (case stack_bucket name of
                    None \<Rightarrow> (None, s\<lparr>stacks := removeAll name (stacks s)\<rparr>)
                  | Some b \<Rightarrow>
                      (case buckets s b of
                         Some (k # ks) \<Rightarrow> (Some (WaiterError ''DELETE_FAILED''), s)
                       | _ \<Rightarrow> (None, s\<lparr>stacks := removeAll name (stacks s),
                                       buckets := (buckets s)(b := None)\<rparr>)))),
      cf_delete_stack = (\<lambda>name s. (script (DeleteStack name), s)),
      s3_upload_file = (\<lambda>filename bucket key s.
        case script (UploadFile filename bucket key) of
          Some e \<Rightarrow> (Some e, s)
        | None \<Rightarrow>
            (case buckets s bucket of
               None \<Rightarrow> (Some upload_failed, s)
             | Some ks \<Rightarrow> (None, s\<lparr>buckets := (buckets s)(bucket \<mapsto> List.insert key ks)\<rparr>))),
      s3_list_objects_v2 = (\<lambda>bucket s.
        case script (ListObjectsV2 bucket) of
          Some e \<Rightarrow> (Inl e, s)
        | None \<Rightarrow>
            (case buckets s bucket of
               None \<Rightarrow> (Inl no_such_bucket, s)
             | Some ks \<Rightarrow>
                 (Inr \<lparr>KeyCount = int (length ks),
                       Contents = (if ks = [] then None else Some ks)\<rparr>, s))),
      s3_delete_objects = (\<lambda>bucket keys s.
        case script (DeleteObjects bucket keys) of
          Some e \<Rightarrow> (Some e, s)
        | None \<Rightarrow>
            (case buckets s bucket of
               None \<Rightarrow> (Some no_such_bucket, s)
             | Some ks \<Rightarrow>
                 (None, s\<lparr>buckets := (buckets s)(bucket \<mapsto> filter (\<lambda>k. k \<notin> set keys) ks)\<rparr>))),
      inspect_resources = (\<lambda>s. (script Inspect, s)) \<rparr>"

text \<open>The simulated states of the concrete runs.\<close>

definition nothing_deployed :: sim_state where
  "nothing_deployed = \<lparr>stacks = [], buckets = (\<lambda>b. None)\<rparr>"

definition all_deployed :: sim_state where
  "all_deployed =
     \<lparr>stacks = [CF_STACKNAME_LAMBDA, CF_STACKNAME_LAMBDA_S3, CF_STACKNAME_BOOTSTRAP_S3],
      buckets = [CF_BOOTSTRAP_S3_BUCKET_NAME \<mapsto> [CF_TEMPLATE_S3],
                 CF_LAMBDA_S3_BUCKET_NAME \<mapsto> [CF_LAMBDA_SOURCE, CF_TEMPLATE_LAMBDA]]\<rparr>"

definition no_failure :: "event \<Rightarrow> exn option" where
  "no_failure ev = None"

definition fail_at :: "event \<Rightarrow> exn \<Rightarrow> event \<Rightarrow> exn option" where
  "fail_at ev e ev' = (if ev' = ev then Some e else None)"


text \<open>
  The failures of the concrete runs: the wait for the bootstrap stack exhausts its twelve
  attempts; the provider rejects the creation of the bootstrap stack for a reason other
  than a name collision; the wait for the deploy stack exhausts its twenty-four attempts;
  the wait for the deletion of the deploy stack exhausts its attempts.
\<close>

definition max_attempts_exceeded :: exn where
  "max_attempts_exceeded = WaiterError ''Waiter encountered a terminal failure state: Max attempts exceeded''"

definition bootstrap_poll_timeout :: "event \<Rightarrow> exn option" where
  "bootstrap_poll_timeout =
     fail_at (WaiterWait stack_create_complete CF_STACKNAME_BOOTSTRAP_S3 5 12)
       max_attempts_exceeded"

definition validation_error :: exn where
  "validation_error = ClientError ''ValidationError'' ''Template format error''"

definition bootstrap_create_rejected :: "event \<Rightarrow> exn option" where
  "bootstrap_create_rejected =
     fail_at (CreateStack CF_STACKNAME_BOOTSTRAP_S3
                (TemplateBody (CF_TEMPLATE_BOOTSTRAP_S3 CF_BOOTSTRAP_S3_BUCKET_NAME)) [])
       validation_error"

definition deploy_poll_timeout :: "event \<Rightarrow> exn option" where
  "deploy_poll_timeout =
     fail_at (WaiterWait stack_create_complete CF_STACKNAME_LAMBDA 5 24)
       max_attempts_exceeded"

definition deploy_delete_timeout :: "event \<Rightarrow> exn option" where
  "deploy_delete_timeout =
     fail_at (WaiterWait stack_delete_complete CF_STACKNAME_LAMBDA 5 24)
       max_attempts_exceeded"

definition already_exists_line :: string where
  "already_exists_line = ''ERROR: Stack [BootstrapS3Bucket] already exists''"

text \<open>
  One response of \<^verbatim>\<open>list_objects_v2\<close> holds some or all of the keys of a bucket and at
  most 1000 of them; the rest is on further pages, which a caller has to ask for. The
  provider \<open>paged page script\<close> answers as \<open>sim script\<close> does, except that a listing
  returns the first \<open>page\<close> keys of the bucket at most. \<open>overfull\<close> is the deployed
  state in which the bootstrap bucket holds one key more than a page of two.
\<close>

definition paged :: "nat \<Rightarrow> (event \<Rightarrow> exn option) \<Rightarrow> sim_state provider" where
  "paged page script =
     (sim script)
       \<lparr> s3_list_objects_v2 := (\<lambda>bucket s.
           case script (ListObjectsV2 bucket) of
             Some e \<Rightarrow> (Inl e, s)
           | None \<Rightarrow>
               (case buckets s bucket of
                  None \<Rightarrow> (Inl no_such_bucket, s)
                | Some ks \<Rightarrow>
                    (Inr \<lparr>KeyCount = int (length (take page ks)),
                          Contents = (if take page ks = [] then None
                                      else Some (take page ks))\<rparr>, s))) \<rparr>"

definition overfull :: sim_state where
  "overfull =
     \<lparr>stacks = [CF_STACKNAME_LAMBDA, CF_STACKNAME_LAMBDA_S3, CF_STACKNAME_BOOTSTRAP_S3],
      buckets = [CF_BOOTSTRAP_S3_BUCKET_NAME \<mapsto> [''object0'', ''object1'', ''object2''],
                 CF_LAMBDA_S3_BUCKET_NAME \<mapsto> [CF_LAMBDA_SOURCE, CF_TEMPLATE_LAMBDA]]\<rparr>"

text \<open>
  The simulated state in which the teardown of \<open>all_deployed\<close> lists the Lambda bucket:
  the one the emptying of the bootstrap bucket leaves.
\<close>

definition bootstrap_emptied :: sim_state where
  "bootstrap_emptied =
     aws (snd (empty_bucket (sim no_failure) CF_BOOTSTRAP_S3_BUCKET_NAME
                 (py_print msg_emptying (init all_deployed))))"

section \<open>The request sequences of the stages\<close>

text \<open>
  The requests of the bootstrap/build stage, of the deploy stage and of the three stack
  deletions of the teardown, in the order of the source text.
\<close>

definition bootstrap_build_plan :: "event list" where
  "bootstrap_build_plan =
     [CreateStack CF_STACKNAME_BOOTSTRAP_S3
        (TemplateBody (CF_TEMPLATE_BOOTSTRAP_S3 CF_BOOTSTRAP_S3_BUCKET_NAME)) [],
      WaiterWait stack_create_complete CF_STACKNAME_BOOTSTRAP_S3 5 12,
      UploadFile CF_TEMPLATE_S3 CF_BOOTSTRAP_S3_BUCKET_NAME CF_TEMPLATE_S3,
      CreateStack CF_STACKNAME_LAMBDA_S3
        (TemplateURL (s3_url CF_BOOTSTRAP_S3_BUCKET_NAME CF_TEMPLATE_S3)) [],
      WaiterWait stack_create_complete CF_STACKNAME_LAMBDA_S3 5 12,
      UploadFile CF_TEMPLATE_LAMBDA CF_LAMBDA_S3_BUCKET_NAME CF_TEMPLATE_LAMBDA]"

definition deploy_plan :: "event list" where
  "deploy_plan =
     [UploadFile CF_LAMBDA_SOURCE CF_LAMBDA_S3_BUCKET_NAME CF_LAMBDA_SOURCE,
      CreateStack CF_STACKNAME_LAMBDA
        (TemplateURL (s3_url CF_LAMBDA_S3_BUCKET_NAME CF_TEMPLATE_LAMBDA)) [CAPABILITY_IAM],
      WaiterWait stack_create_complete CF_STACKNAME_LAMBDA 5 24]"

definition teardown_plan :: "event list" where
  "teardown_plan =
     [DeleteStack CF_STACKNAME_LAMBDA,
      WaiterWait stack_delete_complete CF_STACKNAME_LAMBDA 5 24,
      DeleteStack CF_STACKNAME_LAMBDA_S3,
      WaiterWait stack_delete_complete CF_STACKNAME_LAMBDA_S3 5 12,
      DeleteStack CF_STACKNAME_BOOTSTRAP_S3,
      WaiterWait stack_delete_complete CF_STACKNAME_BOOTSTRAP_S3 5 12]"


section \<open>Observations on events and provider guarantees\<close>

fun capabilities_of :: "event \<Rightarrow> string list option" where
  "capabilities_of (CreateStack n t caps) = Some caps"
| "capabilities_of ev = None"

fun max_attempts_of :: "event \<Rightarrow> int option" where
  "max_attempts_of (WaiterWait wn n d m) = Some m"
| "max_attempts_of ev = None"

text \<open>
  The guarantee of the provider that \<^verbatim>\<open>delete_cf_stack\<close> relies on (the comment at line
  249, section 4.3 of the specification): for a stack that is absent, the delete request
  returns without an exception and leaves the stack absent, and the wait for
  \<^verbatim>\<open>stack_delete_complete\<close> succeeds. \<open>absent s name\<close> reads off a provider state
  whether no stack of that name exists.
\<close>

definition idempotent_delete :: "'s provider \<Rightarrow> ('s \<Rightarrow> string \<Rightarrow> bool) \<Rightarrow> bool" where
  "idempotent_delete P absent \<longleftrightarrow>
     (\<forall>name s. absent s name \<longrightarrow>
        fst (cf_delete_stack P name s) = None \<and> absent (snd (cf_delete_stack P name s)) name)
     \<and> (\<forall>name d m s. absent s name \<longrightarrow>
        fst (cf_waiter_wait P stack_delete_complete name d m s) = None)"

text \<open>The same reading for the simulated provider.\<close>

definition sim_absent :: "sim_state \<Rightarrow> string \<Rightarrow> bool" where
  "sim_absent s name \<longleftrightarrow> name \<notin> set (stacks s)"

text \<open>The simulated state after a successful bootstrap/build stage.\<close>

definition built :: sim_state where
  "built =
     \<lparr>stacks = [CF_STACKNAME_LAMBDA_S3, CF_STACKNAME_BOOTSTRAP_S3],
      buckets = [CF_BOOTSTRAP_S3_BUCKET_NAME \<mapsto> [CF_TEMPLATE_S3],
                 CF_LAMBDA_S3_BUCKET_NAME \<mapsto> [CF_TEMPLATE_LAMBDA]]\<rparr>"


section \<open>Lemmas: handlers and steps\<close>

lemma except_print_return_raises: "except_print_return e w = (Inl TypeError, w)"
  by (simp add: except_print_return_def print_error_def)

lemma perform_fun:
  "perform P (CreateStack n t c) = cf_create_stack P n t c"
  "perform P (WaiterWait wn n d m) = cf_waiter_wait P wn n d m"
  "perform P (UploadFile f b k) = s3_upload_file P f b k"
  "perform P (DeleteObjects b ks) = s3_delete_objects P b ks"
  "perform P (DeleteStack n) = cf_delete_stack P n"
  "perform P Inspect = inspect_resources P"
  by (rule ext, simp)+

lemma create_s3_bucket_steps: "create_s3_bucket P w = run_steps P bootstrap_build_steps w"
  by (simp add: create_s3_bucket_def bootstrap_build_steps_def Let_def perform_fun cong: option.case_cong prod.case_cong)

lemma create_lambda_steps: "create_lambda P w = run_steps P deploy_steps w"
  by (simp add: create_lambda_def deploy_steps_def Let_def perform_fun cong: option.case_cong prod.case_cong)

lemma delete_cf_stack_steps:
  "delete_cf_stack P n c d m v w = run_steps P (delete_steps n d m v) w"
  by (simp add: delete_cf_stack_def delete_steps_def Let_def perform_fun cong: option.case_cong prod.case_cong)

lemma except_ClientError_create_eq:
  "except_ClientError_create e w =
     (if error_code e = ''AlreadyExistsException''
      then (Inr (- 1), py_print (''ERROR: '' @ error_message e) w)
      else (Inl TypeError, w))"
  by (simp add: except_ClientError_create_def print_error_def)

lemma requests_py_print: "requests (py_print m w) = requests w"
  by (simp add: requests_def py_print_def)

lemma aws_py_print: "aws (py_print m w) = aws w"
  by (simp add: py_print_def)

lemma request_perform:
  "request ev (perform P ev) w =
     (fst (perform P ev (aws w)),
      \<lparr>aws = snd (perform P ev (aws w)), trace = trace w @ [(ev, aws w)]\<rparr>)"
  by (simp add: request_def split: prod.split)

lemma handle_aws: "aws (snd (handle h e w)) = aws w"
  by (cases h) (simp_all add: except_print_return_raises except_ClientError_create_eq aws_py_print)

lemma handle_requests: "requests (snd (handle h e w)) = requests w"
  by (cases h) (simp_all add: except_print_return_raises except_ClientError_create_eq requests_py_print)

lemma handle_not_success: "fst (handle h e w) \<noteq> Inr 0"
  by (cases h) (simp_all add: except_print_return_raises except_ClientError_create_eq)

lemma handle_result: "fst (handle h e w) = Inr r \<Longrightarrow> r = - 1"
  by (cases h) (auto simp: except_print_return_raises except_ClientError_create_eq split: if_splits)

lemma run_steps_requests:
  "\<forall>st \<in> set steps. is_request (step_event st) \<Longrightarrow>
   requests (snd (run_steps P steps w)) = requests w @ issued P (map step_event steps) (aws w)"
proof (induction steps arbitrary: w)
  case Nil
  show ?case by simp
next
  case (Cons st steps)
  obtain line ev h where st: "st = (line, ev, h)" by (cases st) auto
  let ?w1 = "case line of None \<Rightarrow> w | Some m \<Rightarrow> py_print m w"
  have w1: "aws ?w1 = aws w" "requests ?w1 = requests w"
    by (cases line; simp add: aws_py_print requests_py_print)+
  have ev: "is_request ev" using Cons.prems st by (simp add: step_event_def)
  show ?case
  proof (cases "perform P ev (aws w)")
    case (Pair a s')
    show ?thesis
    proof (cases a)
      case None
      with Pair Cons.IH[of "\<lparr>aws = s', trace = trace ?w1 @ [(ev, aws w)]\<rparr>"] Cons.prems ev w1
      show ?thesis
        by (simp add: st request_perform step_event_def requests_def)
    next
      case (Some e)
      with Pair ev w1 show ?thesis
        by (simp add: st request_perform step_event_def handle_requests) (simp add: requests_def)
    qed
  qed
qed

lemma run_steps_success:
  "fst (run_steps P steps w) = Inr 0 \<longleftrightarrow> all_ok P (map step_event steps) (aws w)"
proof (induction steps arbitrary: w)
  case Nil
  show ?case by simp
next
  case (Cons st steps)
  obtain line ev h where st: "st = (line, ev, h)" by (cases st) auto
  let ?w1 = "case line of None \<Rightarrow> w | Some m \<Rightarrow> py_print m w"
  have w1: "aws ?w1 = aws w" by (cases line; simp add: aws_py_print)
  show ?case
  proof (cases "perform P ev (aws w)")
    case (Pair a s')
    show ?thesis
    proof (cases a)
      case None
      with Pair Cons.IH[of "\<lparr>aws = s', trace = trace ?w1 @ [(ev, aws w)]\<rparr>"] w1
      show ?thesis by (simp add: st request_perform step_event_def)
    next
      case (Some e)
      with Pair w1 show ?thesis
        by (simp add: st request_perform step_event_def handle_not_success)
    qed
  qed
qed

lemma run_steps_result: "fst (run_steps P steps w) = Inr r \<Longrightarrow> r = 0 \<or> r = - 1"
proof (induction steps arbitrary: w)
  case Nil
  then show ?case by simp
next
  case (Cons st steps)
  obtain line ev h where st: "st = (line, ev, h)" by (cases st) auto
  let ?w1 = "case line of None \<Rightarrow> w | Some m \<Rightarrow> py_print m w"
  show ?case
  proof (cases "perform P ev (aws ?w1)")
    case (Pair a s')
    show ?thesis
    proof (cases a)
      case None
      with Pair Cons.IH[of "\<lparr>aws = s', trace = trace ?w1 @ [(ev, aws ?w1)]\<rparr>"] Cons.prems
      show ?thesis by (simp add: st request_perform)
    next
      case (Some e)
      with Pair Cons.prems show ?thesis
        by (auto simp: st request_perform dest: handle_result)
    qed
  qed
qed

lemma run_steps_aws:
  "aws (snd (run_steps P steps w)) = final_state P (map step_event steps) (aws w)"
proof (induction steps arbitrary: w)
  case Nil
  show ?case by simp
next
  case (Cons st steps)
  obtain line ev h where st: "st = (line, ev, h)" by (cases st) auto
  let ?w1 = "case line of None \<Rightarrow> w | Some m \<Rightarrow> py_print m w"
  have w1: "aws ?w1 = aws w" by (cases line; simp add: aws_py_print)
  show ?case
  proof (cases "perform P ev (aws w)")
    case (Pair a s')
    show ?thesis
    proof (cases a)
      case None
      with Pair Cons.IH[of "\<lparr>aws = s', trace = trace ?w1 @ [(ev, aws w)]\<rparr>"] w1
      show ?thesis by (simp add: st request_perform step_event_def)
    next
      case (Some e)
      with Pair w1 show ?thesis
        by (simp add: st request_perform step_event_def handle_aws)
    qed
  qed
qed

lemma run_steps_append:
  "run_steps P (xs @ ys) w =
     (case run_steps P xs w of
        (Inl e, w') \<Rightarrow> (Inl e, w')
      | (Inr r, w') \<Rightarrow> if r \<noteq> 0 then (Inr (- 1), w') else run_steps P ys w')"
proof (induction xs arbitrary: w)
  case Nil
  show ?case by simp
next
  case (Cons st xs)
  obtain line ev h where st: "st = (line, ev, h)" by (cases st) auto
  let ?w1 = "case line of None \<Rightarrow> w | Some m \<Rightarrow> py_print m w"
  show ?case
  proof (cases "perform P ev (aws ?w1)")
    case (Pair a s')
    show ?thesis
    proof (cases a)
      case None
      with Pair Cons.IH[of "\<lparr>aws = s', trace = trace ?w1 @ [(ev, aws ?w1)]\<rparr>"]
      show ?thesis by (simp add: st request_perform)
    next
      case (Some e)
      obtain r w' where hr: "handle h e \<lparr>aws = s', trace = trace ?w1 @ [(ev, aws ?w1)]\<rparr> = (r, w')"
        by (cases "handle h e \<lparr>aws = s', trace = trace ?w1 @ [(ev, aws ?w1)]\<rparr>") auto
      have "r \<noteq> Inr 0" using handle_not_success[of h e "\<lparr>aws = s', trace = trace ?w1 @ [(ev, aws ?w1)]\<rparr>"] hr by simp
      moreover have "\<And>x. r = Inr x \<Longrightarrow> x = - 1"
        using handle_result[of h e "\<lparr>aws = s', trace = trace ?w1 @ [(ev, aws ?w1)]\<rparr>"] hr by simp
      ultimately show ?thesis using Pair Some hr
        by (cases r) (auto simp: st request_perform)
    qed
  qed
qed

lemma issued_prefix: "prefix (map fst (issued P evs s)) evs"
  by (induction evs arbitrary: s) (auto split: prod.splits option.splits)

lemma issued_butlast_ok:
  "\<forall>x \<in> set (butlast (issued P evs s)). raised P (fst x) (snd x) = None"
  by (induction evs arbitrary: s) (auto simp: raised_def split: prod.splits option.splits)

lemma all_ok_issued_events: "all_ok P evs s \<Longrightarrow> map fst (issued P evs s) = evs"
  by (induction evs arbitrary: s) (auto split: prod.splits option.splits)

lemma all_ok_issued_raised:
  "all_ok P evs s \<Longrightarrow> (ev, st) \<in> set (issued P evs s) \<Longrightarrow> raised P ev st = None"
  by (induction evs arbitrary: s) (auto simp: raised_def split: prod.splits option.splits)

lemma not_all_ok_issued:
  "\<not> all_ok P evs s \<Longrightarrow>
   issued P evs s \<noteq> [] \<and>
   raised P (fst (last (issued P evs s))) (snd (last (issued P evs s))) \<noteq> None"
  by (induction evs arbitrary: s) (auto simp: raised_def split: prod.splits option.splits)

lemma issued_raised_not_ok:
  "(ev, st) \<in> set (issued P evs s) \<Longrightarrow> raised P ev st \<noteq> None \<Longrightarrow> \<not> all_ok P evs s"
  by (auto dest: all_ok_issued_raised)

section \<open>Lemmas: the stages as step lists\<close>

lemma requests_init: "requests (init s) = []" "aws (init s) = s"
  by (simp_all add: requests_def init_def)

lemma bootstrap_build_steps_events: "map step_event bootstrap_build_steps = bootstrap_build_plan"
  by (simp add: bootstrap_build_steps_def bootstrap_build_plan_def step_event_def)

lemma deploy_steps_events: "map step_event deploy_steps = deploy_plan"
  by (simp add: deploy_steps_def deploy_plan_def step_event_def)

lemma create_s3_bucket_requests:
  "requests (snd (create_s3_bucket P w)) = requests w @ issued P bootstrap_build_plan (aws w)"
  unfolding create_s3_bucket_steps bootstrap_build_steps_events[symmetric]
  by (rule run_steps_requests) (simp add: bootstrap_build_steps_def step_event_def)

lemma create_s3_bucket_success:
  "fst (create_s3_bucket P w) = Inr 0 \<longleftrightarrow> all_ok P bootstrap_build_plan (aws w)"
  unfolding create_s3_bucket_steps bootstrap_build_steps_events[symmetric]
  by (rule run_steps_success)

lemma create_lambda_requests:
  "requests (snd (create_lambda P w)) = requests w @ issued P deploy_plan (aws w)"
  unfolding create_lambda_steps deploy_steps_events[symmetric]
  by (rule run_steps_requests) (simp add: deploy_steps_def step_event_def)

lemma events_requests: "ev \<in> set (events w) \<Longrightarrow> is_request ev \<Longrightarrow> ev \<in> set (map fst (requests w))"
  by (auto simp: events_def requests_def)

lemma issued_subset: "set (map fst (issued P evs s)) \<subseteq> set evs"
  using issued_prefix[of P evs s] by (rule set_mono_prefix)


section \<open>Concrete runs\<close>

lemmas names =
  CF_STACKNAME_LAMBDA_def CF_STACKNAME_LAMBDA_S3_def CF_STACKNAME_BOOTSTRAP_S3_def
  CF_LAMBDA_S3_BUCKET_NAME_def CF_BOOTSTRAP_S3_BUCKET_NAME_def CF_LAMBDA_SOURCE_def
  CF_TEMPLATE_S3_def CF_TEMPLATE_LAMBDA_def stack_create_complete_def stack_delete_complete_def

lemmas sim_run = Let_def request_def py_print_def init_def sim_def stack_bucket_def no_such_bucket_def
  events_def requests_def


section \<open>The bootstrap/build stage\<close>

text \<open>
  C8. From any provider state, the requests of \<^verbatim>\<open>create_s3_bucket\<close> are an initial
  segment of: create the bootstrap stack from the inline \<open>TemplateBody\<close>, wait for it,
  upload \<^verbatim>\<open>CreateS3Bucket.yaml\<close> into the bootstrap bucket, create the build stack from
  the \<open>TemplateURL\<close> of that very object, wait for it, upload
  \<^verbatim>\<open>CreateLambdaFunction.yaml\<close> into the build bucket. Every request but the last one
  sent was answered without an exception (a step is taken only after the success of the
  steps before it, and nothing is sent after a failure); the stage returns 0 exactly
  when all six requests were sent and none raised; a run that stops short stops at a
  request that raised; and no request of the stage deletes anything (no cleanup).
\<close>

theorem C8_bootstrap_build_sequence:
  "prefix (map fst (requests (snd (create_s3_bucket P (init s))))) bootstrap_build_plan
   \<and> (\<forall>x \<in> set (butlast (requests (snd (create_s3_bucket P (init s))))).
         raised P (fst x) (snd x) = None)
   \<and> (fst (create_s3_bucket P (init s)) = Inr 0 \<longleftrightarrow>
        map fst (requests (snd (create_s3_bucket P (init s)))) = bootstrap_build_plan
        \<and> (\<forall>x \<in> set (requests (snd (create_s3_bucket P (init s)))).
              raised P (fst x) (snd x) = None))
   \<and> (map fst (requests (snd (create_s3_bucket P (init s)))) = bootstrap_build_plan
        \<or> raised P (fst (last (requests (snd (create_s3_bucket P (init s))))))
                    (snd (last (requests (snd (create_s3_bucket P (init s)))))) \<noteq> None)
   \<and> (\<forall>ev \<in> set (events (snd (create_s3_bucket P (init s)))).
         \<not> is_DeleteStack ev \<and> \<not> is_s3_request ev)"
proof -
  let ?rs = "issued P bootstrap_build_plan s"
  have rs: "requests (snd (create_s3_bucket P (init s))) = ?rs"
    by (simp add: create_s3_bucket_requests requests_init)
  have ok: "fst (create_s3_bucket P (init s)) = Inr 0 \<longleftrightarrow> all_ok P bootstrap_build_plan s"
    by (simp add: create_s3_bucket_success requests_init)
  have 1: "prefix (map fst ?rs) bootstrap_build_plan"
    by (rule issued_prefix)
  have 2: "\<forall>x \<in> set (butlast ?rs). raised P (fst x) (snd x) = None"
    by (rule issued_butlast_ok)
  have 3: "all_ok P bootstrap_build_plan s \<longleftrightarrow>
           map fst ?rs = bootstrap_build_plan \<and> (\<forall>x \<in> set ?rs. raised P (fst x) (snd x) = None)"
  proof
    assume "all_ok P bootstrap_build_plan s"
    then show "map fst ?rs = bootstrap_build_plan \<and> (\<forall>x \<in> set ?rs. raised P (fst x) (snd x) = None)"
      by (auto simp: all_ok_issued_events dest: all_ok_issued_raised)
  next
    assume a: "map fst ?rs = bootstrap_build_plan \<and> (\<forall>x \<in> set ?rs. raised P (fst x) (snd x) = None)"
    show "all_ok P bootstrap_build_plan s"
    proof (rule ccontr)
      assume "\<not> all_ok P bootstrap_build_plan s"
      from not_all_ok_issued[OF this]
      have ne: "?rs \<noteq> []" and bad: "raised P (fst (last ?rs)) (snd (last ?rs)) \<noteq> None"
        by simp_all
      from ne have "last ?rs \<in> set ?rs" by (rule last_in_set)
      with a bad show False by auto
    qed
  qed
  have 4: "map fst ?rs = bootstrap_build_plan
           \<or> raised P (fst (last ?rs)) (snd (last ?rs)) \<noteq> None"
  proof (cases "all_ok P bootstrap_build_plan s")
    case True
    then show ?thesis by (simp add: all_ok_issued_events)
  next
    case False
    then show ?thesis by (simp add: not_all_ok_issued)
  qed
  have 5: "\<forall>ev \<in> set (events (snd (create_s3_bucket P (init s)))).
             \<not> is_DeleteStack ev \<and> \<not> is_s3_request ev"
  proof
    fix ev assume ev: "ev \<in> set (events (snd (create_s3_bucket P (init s))))"
    show "\<not> is_DeleteStack ev \<and> \<not> is_s3_request ev"
    proof (cases "is_request ev")
      case True
      from events_requests[OF ev True] rs issued_subset[of P bootstrap_build_plan s]
      have "ev \<in> set bootstrap_build_plan" by auto
      then show ?thesis by (auto simp: bootstrap_build_plan_def)
    next
      case False
      then show ?thesis by (cases ev) simp_all
    qed
  qed
  show ?thesis
    unfolding rs ok by (intro conjI; (rule 1 2 3 4 5))
qed

theorem C8_bootstrap_build_sequence_witness:
  "fst (create_s3_bucket (sim no_failure) (init nothing_deployed)) = Inr 0
   \<and> map fst (requests (snd (create_s3_bucket (sim no_failure) (init nothing_deployed))))
       = bootstrap_build_plan"
proof -
  have "fst (create_s3_bucket (sim no_failure) (init nothing_deployed)) = Inr 0"
    by (simp add: create_s3_bucket_def sim_run no_failure_def nothing_deployed_def names)
  with C8_bootstrap_build_sequence[of "sim no_failure" nothing_deployed]
  show ?thesis by simp
qed

section \<open>The deploy stage\<close>

lemma create_lambda_events_plan:
  assumes "ev \<in> set (events (snd (create_lambda P (init s))))" "is_request ev"
  shows "ev \<in> set deploy_plan"
  using events_requests[OF assms] issued_subset[of P deploy_plan s]
  by (auto simp: create_lambda_requests requests_init)

lemma create_s3_bucket_events_plan:
  assumes "ev \<in> set (events (snd (create_s3_bucket P (init s))))" "is_request ev"
  shows "ev \<in> set bootstrap_build_plan"
  using events_requests[OF assms] issued_subset[of P bootstrap_build_plan s]
  by (auto simp: create_s3_bucket_requests requests_init)

lemma capabilities_of_request: "capabilities_of ev = Some caps \<Longrightarrow> is_request ev"
  by (cases ev) simp_all

lemma max_attempts_of_request: "max_attempts_of ev = Some m \<Longrightarrow> is_request ev"
  by (cases ev) simp_all

lemma deploy_plan_capabilities:
  "ev \<in> set deploy_plan \<Longrightarrow> capabilities_of ev = Some caps \<Longrightarrow> caps = [CAPABILITY_IAM]"
  by (auto simp: deploy_plan_def)

lemma deploy_plan_attempts:
  "ev \<in> set deploy_plan \<Longrightarrow> max_attempts_of ev = Some m \<Longrightarrow> m = 24"
  by (auto simp: deploy_plan_def)

lemma bootstrap_build_plan_attempts:
  "ev \<in> set bootstrap_build_plan \<Longrightarrow> max_attempts_of ev = Some m \<Longrightarrow> m = 12"
  by (auto simp: bootstrap_build_plan_def)

text \<open>
  C7. In every run of \<^verbatim>\<open>create_lambda\<close>, a stack-creation request carries exactly the
  capability list \<^verbatim>\<open>['CAPABILITY_IAM']\<close> and a wait has the attempt budget 24; in every
  run of \<^verbatim>\<open>create_s3_bucket\<close> a wait has the attempt budget 12; so the budget of the
  deploy stage's wait is strictly larger than that of either storage stack's wait.
\<close>

theorem C7_deploy_capability_and_budget:
  "(\<forall>ev \<in> set (events (snd (create_lambda P (init s)))).
      \<forall>caps. capabilities_of ev = Some caps \<longrightarrow> caps = [CAPABILITY_IAM])
   \<and> (\<forall>ev \<in> set (events (snd (create_lambda P (init s)))).
      \<forall>m. max_attempts_of ev = Some m \<longrightarrow> m = 24)
   \<and> (\<forall>ev \<in> set (events (snd (create_s3_bucket P (init s')))).
      \<forall>m. max_attempts_of ev = Some m \<longrightarrow> m = 12)
   \<and> (\<forall>ev \<in> set (events (snd (create_lambda P (init s)))).
      \<forall>ev' \<in> set (events (snd (create_s3_bucket P (init s')))).
        \<forall>m m'. max_attempts_of ev = Some m \<and> max_attempts_of ev' = Some m' \<longrightarrow> m' < m)"
proof -
  have 1: "caps = [CAPABILITY_IAM]"
    if "ev \<in> set (events (snd (create_lambda P (init s))))" "capabilities_of ev = Some caps"
    for ev caps
    by (rule deploy_plan_capabilities
          [OF create_lambda_events_plan[OF that(1) capabilities_of_request[OF that(2)]] that(2)])
  have 2: "m = 24"
    if "ev \<in> set (events (snd (create_lambda P (init s))))" "max_attempts_of ev = Some m"
    for ev m
    by (rule deploy_plan_attempts
          [OF create_lambda_events_plan[OF that(1) max_attempts_of_request[OF that(2)]] that(2)])
  have 3: "m = 12"
    if "ev \<in> set (events (snd (create_s3_bucket P (init s'))))" "max_attempts_of ev = Some m"
    for ev m
    by (rule bootstrap_build_plan_attempts
          [OF create_s3_bucket_events_plan[OF that(1) max_attempts_of_request[OF that(2)]] that(2)])
  have 4: "m' < m"
    if "ev \<in> set (events (snd (create_lambda P (init s))))" "max_attempts_of ev = Some m"
       "ev' \<in> set (events (snd (create_s3_bucket P (init s'))))" "max_attempts_of ev' = Some m'"
    for ev ev' m m'
    using 2[OF that(1,2)] 3[OF that(3,4)] by simp
  show ?thesis
  proof (intro conjI ballI allI impI)
    fix ev caps
    assume "ev \<in> set (events (snd (create_lambda P (init s))))" "capabilities_of ev = Some caps"
    then show "caps = [CAPABILITY_IAM]" by (rule 1)
  next
    fix ev m
    assume "ev \<in> set (events (snd (create_lambda P (init s))))" "max_attempts_of ev = Some m"
    then show "m = 24" by (rule 2)
  next
    fix ev m
    assume "ev \<in> set (events (snd (create_s3_bucket P (init s'))))" "max_attempts_of ev = Some m"
    then show "m = 12" by (rule 3)
  next
    fix ev ev' m m'
    assume "ev \<in> set (events (snd (create_lambda P (init s))))"
       "ev' \<in> set (events (snd (create_s3_bucket P (init s'))))"
       "max_attempts_of ev = Some m \<and> max_attempts_of ev' = Some m'"
    then show "m' < m" using 4 by blast
  qed
qed

theorem C7_deploy_capability_and_budget_witness:
  "events (snd (create_lambda (sim no_failure) (init built))) =
     [Print (msg_uploading CF_LAMBDA_SOURCE CF_LAMBDA_S3_BUCKET_NAME),
      UploadFile CF_LAMBDA_SOURCE CF_LAMBDA_S3_BUCKET_NAME CF_LAMBDA_SOURCE,
      Print (msg_creating CF_STACKNAME_LAMBDA),
      CreateStack CF_STACKNAME_LAMBDA
        (TemplateURL (s3_url CF_LAMBDA_S3_BUCKET_NAME CF_TEMPLATE_LAMBDA)) [CAPABILITY_IAM],
      WaiterWait stack_create_complete CF_STACKNAME_LAMBDA 5 24]
   \<and> WaiterWait stack_create_complete CF_STACKNAME_BOOTSTRAP_S3 5 12
       \<in> set (events (snd (create_s3_bucket (sim no_failure) (init nothing_deployed))))
   \<and> max_attempts_of (WaiterWait stack_create_complete CF_STACKNAME_BOOTSTRAP_S3 5 12) = Some 12
   \<and> (12::int) < 24"
proof -
  have a: "events (snd (create_lambda (sim no_failure) (init built))) =
     [Print (msg_uploading CF_LAMBDA_SOURCE CF_LAMBDA_S3_BUCKET_NAME),
      UploadFile CF_LAMBDA_SOURCE CF_LAMBDA_S3_BUCKET_NAME CF_LAMBDA_SOURCE,
      Print (msg_creating CF_STACKNAME_LAMBDA),
      CreateStack CF_STACKNAME_LAMBDA
        (TemplateURL (s3_url CF_LAMBDA_S3_BUCKET_NAME CF_TEMPLATE_LAMBDA)) [CAPABILITY_IAM],
      WaiterWait stack_create_complete CF_STACKNAME_LAMBDA 5 24]"
    by (simp add: create_lambda_def sim_run no_failure_def built_def names)
  have b: "WaiterWait stack_create_complete CF_STACKNAME_BOOTSTRAP_S3 5 12
       \<in> set (events (snd (create_s3_bucket (sim no_failure) (init nothing_deployed))))"
    by (simp add: create_s3_bucket_def sim_run no_failure_def nothing_deployed_def names)
  have c: "WaiterWait stack_create_complete CF_STACKNAME_LAMBDA 5 24
       \<in> set (events (snd (create_lambda (sim no_failure) (init built))))"
    by (simp add: a)
  have lt: "(12::int) < 24"
    using C7_deploy_capability_and_budget[of "sim no_failure" built nothing_deployed,
            THEN conjunct2, THEN conjunct2, THEN conjunct2, rule_format, OF c b, of 24 12]
    by simp
  from a b lt show ?thesis by simp
qed

section \<open>The deletion of one stack\<close>

lemma delete_steps_events:
  "map step_event (delete_steps n d m v) = [DeleteStack n, WaiterWait stack_delete_complete n d m]"
  by (simp add: delete_steps_def step_event_def)

lemma all_ok_Cons:
  "all_ok P (ev # evs) s \<longleftrightarrow>
     fst (perform P ev s) = None \<and> all_ok P evs (snd (perform P ev s))"
  by (cases "perform P ev s") (simp split: option.split)

lemma delete_cf_stack_requests:
  "requests (snd (delete_cf_stack P n c d m v w)) =
     requests w @ issued P [DeleteStack n, WaiterWait stack_delete_complete n d m] (aws w)"
  using run_steps_requests[of "delete_steps n d m v" P w]
  by (simp add: delete_cf_stack_steps delete_steps_events) (simp add: delete_steps_def step_event_def)

lemma delete_cf_stack_success:
  "fst (delete_cf_stack P n c d m v w) = Inr 0 \<longleftrightarrow>
     all_ok P [DeleteStack n, WaiterWait stack_delete_complete n d m] (aws w)"
  using run_steps_success[of P "delete_steps n d m v" w]
  by (simp only: delete_cf_stack_steps delete_steps_events)

lemma sim_idempotent_delete: "idempotent_delete (sim no_failure) sim_absent"
  by (simp add: idempotent_delete_def sim_def no_failure_def sim_absent_def stack_delete_complete_def
        stack_create_complete_def)


text \<open>
  C5. Let the provider give the guarantee \<open>idempotent_delete\<close>: for an absent stack the
  delete request raises nothing and the wait for \<^verbatim>\<open>stack_delete_complete\<close> succeeds.
  Then \<^verbatim>\<open>delete_cf_stack\<close>, called for a stack name that is absent, returns 0, and the
  requests it sends are exactly the delete request and the wait: it sends no request that
  would check whether the stack exists.
\<close>

theorem C5_delete_of_absent_stack_succeeds:
  assumes "idempotent_delete P absent" and "absent s name"
  shows "fst (delete_cf_stack P name c d m v (init s)) = Inr 0
         \<and> map fst (requests (snd (delete_cf_stack P name c d m v (init s))))
             = [DeleteStack name, WaiterWait stack_delete_complete name d m]"
proof -
  from assms have 1: "fst (cf_delete_stack P name s) = None"
    and 2: "absent (snd (cf_delete_stack P name s)) name"
    unfolding idempotent_delete_def by blast+
  from assms(1) 2
  have 3: "fst (cf_waiter_wait P stack_delete_complete name d m (snd (cf_delete_stack P name s))) = None"
    unfolding idempotent_delete_def by blast
  have ok: "all_ok P [DeleteStack name, WaiterWait stack_delete_complete name d m] s"
    using 1 3 by (simp only: all_ok_Cons all_ok.simps perform.simps simp_thms)
  show ?thesis
    using ok all_ok_issued_events[OF ok]
    by (simp add: delete_cf_stack_success delete_cf_stack_requests requests_init)
qed


theorem C5_delete_of_absent_stack_succeeds_witness:
  "idempotent_delete (sim no_failure) sim_absent
   \<and> sim_absent all_deployed ''NoSuchStack''
   \<and> fst (delete_cf_stack (sim no_failure) ''NoSuchStack'' None 5 12 True (init all_deployed)) = Inr 0
   \<and> map fst (requests (snd (delete_cf_stack (sim no_failure) ''NoSuchStack'' None 5 12 True
                              (init all_deployed))))
       = [DeleteStack ''NoSuchStack'', WaiterWait stack_delete_complete ''NoSuchStack'' 5 12]"
proof -
  have a: "sim_absent all_deployed ''NoSuchStack''"
    by (simp add: sim_absent_def all_deployed_def names)
  note th = C5_delete_of_absent_stack_succeeds
              [where P = "sim no_failure" and absent = sim_absent and s = all_deployed
                 and name = "''NoSuchStack''" and c = None and d = 5 and m = 12 and v = True,
               OF sim_idempotent_delete a]
  show ?thesis
    by (intro conjI sim_idempotent_delete a th[THEN conjunct1] th[THEN conjunct2])
qed

section \<open>Lemmas: the teardown\<close>

lemma bucket_names_distinct: "CF_BOOTSTRAP_S3_BUCKET_NAME \<noteq> CF_LAMBDA_S3_BUCKET_NAME"
  by (simp add: names)

lemma empty_bucket_eq:
  "empty_bucket P b w =
     (case fst (s3_list_objects_v2 P b (aws w)) of
        Inl e \<Rightarrow> Some e
      | Inr r \<Rightarrow>
          if KeyCount r \<noteq> 0
          then (case Contents r of
                  None \<Rightarrow> Some (KeyError ''Contents'')
                | Some ks \<Rightarrow> fst (s3_delete_objects P b ks (snd (s3_list_objects_v2 P b (aws w)))))
          else None,
      \<lparr>aws = (case fst (s3_list_objects_v2 P b (aws w)) of
                Inl e \<Rightarrow> snd (s3_list_objects_v2 P b (aws w))
              | Inr r \<Rightarrow>
                  if KeyCount r \<noteq> 0
                  then (case Contents r of
                          None \<Rightarrow> snd (s3_list_objects_v2 P b (aws w))
                        | Some ks \<Rightarrow>
                            snd (s3_delete_objects P b ks (snd (s3_list_objects_v2 P b (aws w)))))
                  else snd (s3_list_objects_v2 P b (aws w))),
       trace = trace w @ emptying P b (aws w)\<rparr>)"
proof (cases "s3_list_objects_v2 P b (aws w)")
  case (Pair x s1)
  show ?thesis
  proof (cases x)
    case (Inl e)
    with Pair show ?thesis
      unfolding empty_bucket_def emptying_def request_def by simp
  next
    case (Inr r)
    show ?thesis
    proof (cases "Contents r")
      case None
      with Pair Inr show ?thesis
        unfolding empty_bucket_def emptying_def request_def by simp
    next
      case (Some ks)
      with Pair Inr show ?thesis
        unfolding empty_bucket_def emptying_def request_def
        by (cases "s3_delete_objects P b ks s1") simp
    qed
  qed
qed

lemma empty_bucket_trace: "trace (snd (empty_bucket P b w)) = trace w @ emptying P b (aws w)"
  by (simp add: empty_bucket_eq)

lemma emptying_shape:
  "emptying P b s = [(ListObjectsV2 b, s)]
   \<or> (\<exists>r ks. fst (s3_list_objects_v2 P b s) = Inr r \<and> KeyCount r \<noteq> 0 \<and> Contents r = Some ks
         \<and> emptying P b s =
             [(ListObjectsV2 b, s), (DeleteObjects b ks, snd (s3_list_objects_v2 P b s))])"
proof (cases "fst (s3_list_objects_v2 P b s)")
  case (Inl e)
  then show ?thesis by (simp add: emptying_def)
next
  case (Inr r)
  show ?thesis
  proof (cases "KeyCount r = 0")
    case True
    with Inr show ?thesis by (simp add: emptying_def)
  next
    case False
    with Inr show ?thesis by (cases "Contents r") (simp_all add: emptying_def)
  qed
qed

lemma emptying_raised:
  assumes "(ev, st) \<in> set (emptying P b (aws w))" "raised P ev st = Some e"
  shows "fst (empty_bucket P b w) = Some e"
proof (cases "fst (s3_list_objects_v2 P b (aws w))")
  case (Inl e')
  with assms show ?thesis by (simp add: emptying_def empty_bucket_eq raised_def split: prod.splits)
next
  case (Inr r)
  show ?thesis
  proof (cases "KeyCount r = 0")
    case True
    with Inr assms show ?thesis
      by (simp add: emptying_def empty_bucket_eq raised_def split: prod.splits)
  next
    case False
    with Inr assms show ?thesis
      by (cases "Contents r")
         (auto simp: emptying_def empty_bucket_eq raised_def split: prod.splits)
  qed
qed

lemma emptying_events:
  "ev \<in> fst ` set (emptying P b s) \<Longrightarrow> is_s3_request ev \<and> \<not> is_DeleteStack ev"
  using emptying_shape[of P b s] by auto

lemma emptying_listing:
  "(ListObjectsV2 b', st) \<in> set (emptying P b s) \<Longrightarrow> b' = b \<and> st = s"
  using emptying_shape[of P b s] by auto

lemma emptying_deletes_other:
  "b' \<noteq> b \<Longrightarrow> filter (deletes_objects_of b') (map fst (emptying P b s)) = []"
  using emptying_shape[of P b s] by auto

lemma emptying_deletes:
  assumes "fst (s3_list_objects_v2 P b s) = Inr r" "counts_its_keys r"
  shows "filter (deletes_objects_of b) (map fst (emptying P b s)) =
           (if listed_keys r = [] then [] else [DeleteObjects b (listed_keys r)])"
proof (cases "KeyCount r = 0")
  case True
  with assms show ?thesis by (simp add: emptying_def counts_its_keys_def)
next
  case False
  with assms show ?thesis
    by (cases "Contents r") (simp_all add: emptying_def counts_its_keys_def listed_keys_def)
qed

lemma run_steps_or_last:
  "(case run_steps P xs w of
      (Inl e, w') \<Rightarrow> (Inl e, w')
    | (Inr r, w') \<Rightarrow> if r \<noteq> 0 then (Inr (- 1), w') else (Inr 0, w')) = run_steps P xs w"
  using run_steps_append[of P xs "[]" w]
  by (simp cong: prod.case_cong sum.case_cong if_cong)

lemma teardown_steps_events: "map step_event teardown_steps = teardown_plan"
  by (simp add: teardown_steps_def delete_steps_def teardown_plan_def step_event_def)

lemma delete_cloudformation_stacks_eq:
  "delete_cloudformation_stacks P w =
     (case empty_bucket P CF_BOOTSTRAP_S3_BUCKET_NAME (py_print msg_emptying w) of
        (Some e, w2) \<Rightarrow> (Inl e, w2)
      | (None, w2) \<Rightarrow>
          (case empty_bucket P CF_LAMBDA_S3_BUCKET_NAME w2 of
             (Some e, w3) \<Rightarrow> (Inl e, w3)
           | (None, w3) \<Rightarrow> run_steps P teardown_steps w3))"
  by (simp add: delete_cloudformation_stacks_def Let_def delete_cf_stack_steps teardown_steps_def
        run_steps_append run_steps_or_last
        cong: option.case_cong prod.case_cong sum.case_cong if_cong)

lemma handle_trace_extends: "\<exists>t. trace (snd (handle h e w)) = trace w @ t"
  by (cases h) (auto simp: except_print_return_raises except_ClientError_create_eq py_print_def)

lemma run_steps_trace_extends: "\<exists>t. trace (snd (run_steps P steps w)) = trace w @ t"
proof (induction steps arbitrary: w)
  case Nil
  show ?case by simp
next
  case (Cons st steps)
  obtain line ev h where st: "st = (line, ev, h)" by (cases st) auto
  let ?w1 = "case line of None \<Rightarrow> w | Some m \<Rightarrow> py_print m w"
  obtain t1 where t1: "trace ?w1 = trace w @ t1"
    by (cases line) (auto simp: py_print_def)
  let ?w2 = "\<lparr>aws = snd (perform P ev (aws ?w1)), trace = trace ?w1 @ [(ev, aws ?w1)]\<rparr>"
  show ?case
  proof (cases "fst (perform P ev (aws ?w1))")
    case None
    from Cons.IH[of ?w2] obtain t where "trace (snd (run_steps P steps ?w2)) = trace ?w2 @ t" ..
    with None t1 show ?thesis by (simp add: st request_perform)
  next
    case (Some e)
    from handle_trace_extends[of h e ?w2] obtain t where "trace (snd (handle h e ?w2)) = trace ?w2 @ t" ..
    with Some t1 show ?thesis by (simp add: st request_perform)
  qed
qed

lemma run_steps_tail:
  assumes "\<forall>st \<in> set steps. is_request (step_event st)"
  obtains t where "trace (snd (run_steps P steps w)) = trace w @ t"
    and "filter (\<lambda>x. is_request (fst x)) t = issued P (map step_event steps) (aws w)"
proof -
  from run_steps_trace_extends[of P steps w]
  obtain t where t: "trace (snd (run_steps P steps w)) = trace w @ t" ..
  from run_steps_requests[OF assms, of P w] t
  have "filter (\<lambda>x. is_request (fst x)) t = issued P (map step_event steps) (aws w)"
    by (simp add: requests_def)
  with t that show ?thesis by blast
qed

lemma is_s3_request_request: "is_s3_request ev \<Longrightarrow> is_request ev"
  by (cases ev) simp_all

lemma is_DeleteStack_request: "is_DeleteStack ev \<Longrightarrow> is_request ev"
  by (cases ev) simp_all

lemma deletes_objects_of_request: "deletes_objects_of b ev \<Longrightarrow> is_request ev"
  by (cases ev) simp_all

lemma is_error_line_request: "is_request ev \<Longrightarrow> \<not> is_error_line ev"
  by (cases ev) simp_all

lemma teardown_steps_requests: "\<forall>st \<in> set teardown_steps. is_request (step_event st)"
  by (simp add: teardown_steps_def delete_steps_def step_event_def)

lemma teardown_plan_no_s3: "ev \<in> set teardown_plan \<Longrightarrow> \<not> is_s3_request ev"
  by (auto simp: teardown_plan_def)

text \<open>
  The three ways a teardown run can go: the emptying of the bootstrap bucket raises; the
  emptying of the Lambda bucket raises; both buckets are emptied and the stack deletions
  run.
\<close>

lemma teardown_cases:
  fixes P :: "'s provider" and s :: 's
  defines "w1 \<equiv> py_print msg_emptying (init s)"
  defines "w2 \<equiv> snd (empty_bucket P CF_BOOTSTRAP_S3_BUCKET_NAME w1)"
  defines "w3 \<equiv> snd (empty_bucket P CF_LAMBDA_S3_BUCKET_NAME w2)"
  obtains
    (bootstrap_raises) e where
      "fst (empty_bucket P CF_BOOTSTRAP_S3_BUCKET_NAME w1) = Some e"
      "fst (delete_cloudformation_stacks P (init s)) = Inl e"
      "trace (snd (delete_cloudformation_stacks P (init s))) =
         (Print msg_emptying, s) # emptying P CF_BOOTSTRAP_S3_BUCKET_NAME s"
  | (lambda_raises) e where
      "fst (empty_bucket P CF_BOOTSTRAP_S3_BUCKET_NAME w1) = None"
      "fst (empty_bucket P CF_LAMBDA_S3_BUCKET_NAME w2) = Some e"
      "fst (delete_cloudformation_stacks P (init s)) = Inl e"
      "trace (snd (delete_cloudformation_stacks P (init s))) =
         (Print msg_emptying, s) # emptying P CF_BOOTSTRAP_S3_BUCKET_NAME s
         @ emptying P CF_LAMBDA_S3_BUCKET_NAME (aws w2)"
  | (emptied) t where
      "fst (empty_bucket P CF_BOOTSTRAP_S3_BUCKET_NAME w1) = None"
      "fst (empty_bucket P CF_LAMBDA_S3_BUCKET_NAME w2) = None"
      "delete_cloudformation_stacks P (init s) = run_steps P teardown_steps w3"
      "trace (snd (delete_cloudformation_stacks P (init s))) =
         (Print msg_emptying, s) # emptying P CF_BOOTSTRAP_S3_BUCKET_NAME s
         @ emptying P CF_LAMBDA_S3_BUCKET_NAME (aws w2) @ t"
      "filter (\<lambda>x. is_request (fst x)) t = issued P teardown_plan (aws w3)"
proof -
  have w1: "aws w1 = s" "trace w1 = [(Print msg_emptying, s)]"
    by (simp_all add: w1_def py_print_def init_def)
  have tr2: "trace w2 = (Print msg_emptying, s) # emptying P CF_BOOTSTRAP_S3_BUCKET_NAME s"
    by (simp add: w2_def empty_bucket_trace w1)
  have tr3: "trace w3 = (Print msg_emptying, s) # emptying P CF_BOOTSTRAP_S3_BUCKET_NAME s
                        @ emptying P CF_LAMBDA_S3_BUCKET_NAME (aws w2)"
    by (simp add: w3_def empty_bucket_trace tr2)
  obtain r1 where e1: "empty_bucket P CF_BOOTSTRAP_S3_BUCKET_NAME (py_print msg_emptying (init s))
                          = (r1, w2)"
    by (cases "empty_bucket P CF_BOOTSTRAP_S3_BUCKET_NAME (py_print msg_emptying (init s))")
       (simp add: w1_def w2_def)
  obtain r2 where e2: "empty_bucket P CF_LAMBDA_S3_BUCKET_NAME w2 = (r2, w3)"
    by (cases "empty_bucket P CF_LAMBDA_S3_BUCKET_NAME w2") (simp add: w3_def)
  have f1: "fst (empty_bucket P CF_BOOTSTRAP_S3_BUCKET_NAME w1) = r1"
    using e1 by (simp add: w1_def)
  have f2: "fst (empty_bucket P CF_LAMBDA_S3_BUCKET_NAME w2) = r2"
    using e2 by simp
  have eq: "delete_cloudformation_stacks P (init s) =
              (case r1 of
                 Some e \<Rightarrow> (Inl e, w2)
               | None \<Rightarrow> (case r2 of Some e \<Rightarrow> (Inl e, w3)
                                    | None \<Rightarrow> run_steps P teardown_steps w3))"
    unfolding delete_cloudformation_stacks_eq e1 by (simp add: e2 cong: option.case_cong)
  show thesis
  proof (cases r1)
    case (Some e)
    with eq f1 tr2 show thesis by (intro bootstrap_raises[of e]) simp_all
  next
    case None
    note b = None
    show thesis
    proof (cases r2)
      case (Some e)
      with eq b f1 f2 tr3 show thesis by (intro lambda_raises[of e]) simp_all
    next
      case None
      obtain t where t: "trace (snd (run_steps P teardown_steps w3)) = trace w3 @ t"
        and f: "filter (\<lambda>x. is_request (fst x)) t
                  = issued P (map step_event teardown_steps) (aws w3)"
        by (rule run_steps_tail[OF teardown_steps_requests])
      from b None eq t f tr3 f1 f2 show thesis
        by (intro emptied[of t]) (simp_all add: teardown_steps_events)
    qed
  qed
qed

lemma print_emptying_quiet: "take 7 msg_emptying \<noteq> ''ERROR: ''"
  by (simp add: msg_emptying_def)

lemma emptying_quiet:
  "x \<in> set (emptying P b s) \<Longrightarrow>
     is_s3_request (fst x) \<and> \<not> is_DeleteStack (fst x) \<and> \<not> is_error_line (fst x)"
  using emptying_events[of "fst x" P b s] is_error_line_request[of "fst x"]
        is_s3_request_request[of "fst x"]
  by auto

lemma listing_in_emptying: "ListObjectsV2 b \<in> set (map fst (emptying P b s))"
  using emptying_shape[of P b s] by auto

lemma tail_no_s3:
  assumes "filter (\<lambda>x. is_request (fst x)) t = issued P teardown_plan s'" "x \<in> set t"
  shows "\<not> is_s3_request (fst x)"
proof
  assume s3: "is_s3_request (fst x)"
  then have "is_request (fst x)" by (rule is_s3_request_request)
  with assms(2) have "x \<in> set (filter (\<lambda>x. is_request (fst x)) t)" by simp
  with assms(1) have "fst x \<in> set (map fst (issued P teardown_plan s'))" by simp
  with issued_subset[of P teardown_plan s'] have "fst x \<in> set teardown_plan" by blast
  with s3 show False by (simp add: teardown_plan_no_s3)
qed

lemma teardown_trace_shape:
  obtains B t where
    "trace (snd (delete_cloudformation_stacks P (init s))) =
       (Print msg_emptying, s) # emptying P CF_BOOTSTRAP_S3_BUCKET_NAME s @ B @ t"
    "(B = [] \<and> t = []) \<or> (\<exists>s2. B = emptying P CF_LAMBDA_S3_BUCKET_NAME s2)"
    "\<forall>x \<in> set t. \<not> is_s3_request (fst x)"
proof (cases rule: teardown_cases[of P s])
  case (bootstrap_raises e)
  then show ?thesis by (intro that[of "[]" "[]"]) simp_all
next
  case (lambda_raises e)
  then show ?thesis
    by (intro that[of "emptying P CF_LAMBDA_S3_BUCKET_NAME
          (aws (snd (empty_bucket P CF_BOOTSTRAP_S3_BUCKET_NAME (py_print msg_emptying (init s)))))" "[]"])
       auto
next
  case (emptied t)
  then show ?thesis
    by (intro that[of "emptying P CF_LAMBDA_S3_BUCKET_NAME
          (aws (snd (empty_bucket P CF_BOOTSTRAP_S3_BUCKET_NAME (py_print msg_emptying (init s)))))" t])
       (auto dest: tail_no_s3)
qed


lemma bootstrap_listing_issued:
  "(ListObjectsV2 CF_BOOTSTRAP_S3_BUCKET_NAME, s)
     \<in> set (trace (snd (delete_cloudformation_stacks P (init s))))"
proof -
  obtain B t where
    "trace (snd (delete_cloudformation_stacks P (init s))) =
       (Print msg_emptying, s) # emptying P CF_BOOTSTRAP_S3_BUCKET_NAME s @ B @ t"
    by (rule teardown_trace_shape)
  moreover have "(ListObjectsV2 CF_BOOTSTRAP_S3_BUCKET_NAME, s)
                   \<in> set (emptying P CF_BOOTSTRAP_S3_BUCKET_NAME s)"
    using emptying_shape[of P CF_BOOTSTRAP_S3_BUCKET_NAME s] by auto
  ultimately show ?thesis by simp
qed


lemma deletes_objects_of_s3: "deletes_objects_of b ev \<Longrightarrow> is_s3_request ev"
  by (cases ev) simp_all

lemma no_s3_no_deletes:
  "\<forall>x \<in> set t. \<not> is_s3_request (fst x) \<Longrightarrow> filter (deletes_objects_of b) (map fst t) = []"
  by (induction t) (auto dest: deletes_objects_of_s3)


lemma split_phases:
  assumes "H @ T = pre @ d # post" "d \<notin> set H"
  shows "\<exists>us. pre = H @ us \<and> T = us @ d # post"
proof -
  from assms(1) obtain us where
    "(H = pre @ us \<and> us @ T = d # post) \<or> (H @ us = pre \<and> T = us @ d # post)"
    unfolding append_eq_append_conv2 by blast
  then show ?thesis
  proof
    assume a: "H = pre @ us \<and> us @ T = d # post"
    show ?thesis
    proof (cases us)
      case Nil
      with a show ?thesis by auto
    next
      case (Cons u us')
      with a have "u = d" by simp
      with a Cons assms(2) show ?thesis by auto
    qed
  next
    assume "H @ us = pre \<and> T = us @ d # post"
    then show ?thesis by auto
  qed
qed


section \<open>The teardown\<close>

text \<open>
  C10. No \<^verbatim>\<open>try\<close> encloses the emptying of the buckets. In every run of
  \<^verbatim>\<open>delete_cloudformation_stacks\<close>, when a listing or a batch deletion of objects
  raises an exception, that same exception leaves the function (it does not return -1),
  no stack deletion is requested and no error line is printed.
\<close>

theorem C10_emptying_failure_propagates:
  "\<forall>x \<in> set (trace (snd (delete_cloudformation_stacks P (init s)))).
     is_s3_request (fst x) \<longrightarrow>
     (\<forall>e. raised P (fst x) (snd x) = Some e \<longrightarrow>
        fst (delete_cloudformation_stacks P (init s)) = Inl e
        \<and> (\<forall>ev \<in> set (events (snd (delete_cloudformation_stacks P (init s)))).
              \<not> is_DeleteStack ev \<and> \<not> is_error_line ev))"
proof (intro ballI impI allI)
  fix x e
  assume x: "x \<in> set (trace (snd (delete_cloudformation_stacks P (init s))))"
    and s3: "is_s3_request (fst x)"
    and r: "raised P (fst x) (snd x) = Some e"
  let ?w1 = "py_print msg_emptying (init s)"
  have w1: "aws ?w1 = s" by (simp add: py_print_def init_def)
  have first: "fst (empty_bucket P CF_BOOTSTRAP_S3_BUCKET_NAME ?w1) = Some e"
    if "x \<in> set (emptying P CF_BOOTSTRAP_S3_BUCKET_NAME s)"
    using emptying_raised[of "fst x" "snd x" P CF_BOOTSTRAP_S3_BUCKET_NAME ?w1 e] that r w1
    by simp
  show "fst (delete_cloudformation_stacks P (init s)) = Inl e
        \<and> (\<forall>ev \<in> set (events (snd (delete_cloudformation_stacks P (init s)))).
              \<not> is_DeleteStack ev \<and> \<not> is_error_line ev)"
  proof (cases rule: teardown_cases[of P s])
    case (bootstrap_raises e')
    from x s3 bootstrap_raises(3) have "x \<in> set (emptying P CF_BOOTSTRAP_S3_BUCKET_NAME s)"
      by auto
    from first[OF this] bootstrap_raises(1) have "e' = e" by simp
    with bootstrap_raises(2,3) show ?thesis
      by (auto simp: events_def print_emptying_quiet dest: emptying_quiet)
  next
    case (lambda_raises e')
    let ?w2 = "snd (empty_bucket P CF_BOOTSTRAP_S3_BUCKET_NAME ?w1)"
    from x s3 lambda_raises(4)
    have "x \<in> set (emptying P CF_BOOTSTRAP_S3_BUCKET_NAME s)
          \<or> x \<in> set (emptying P CF_LAMBDA_S3_BUCKET_NAME (aws ?w2))"
      by auto
    with first lambda_raises(1) have "x \<in> set (emptying P CF_LAMBDA_S3_BUCKET_NAME (aws ?w2))"
      by auto
    with r have "fst (empty_bucket P CF_LAMBDA_S3_BUCKET_NAME ?w2) = Some e"
      using emptying_raised[of "fst x" "snd x" P CF_LAMBDA_S3_BUCKET_NAME ?w2 e] by simp
    with lambda_raises(2) have "e' = e" by simp
    with lambda_raises(3,4) show ?thesis
      by (auto simp: events_def print_emptying_quiet dest: emptying_quiet)
  next
    case (emptied t)
    let ?w2 = "snd (empty_bucket P CF_BOOTSTRAP_S3_BUCKET_NAME ?w1)"
    from x s3 emptied(4)
    have "x \<in> set (emptying P CF_BOOTSTRAP_S3_BUCKET_NAME s)
          \<or> x \<in> set (emptying P CF_LAMBDA_S3_BUCKET_NAME (aws ?w2)) \<or> x \<in> set t"
      by auto
    moreover have "x \<notin> set (emptying P CF_BOOTSTRAP_S3_BUCKET_NAME s)"
      using first emptied(1) by auto
    moreover have "x \<notin> set (emptying P CF_LAMBDA_S3_BUCKET_NAME (aws ?w2))"
      using emptying_raised[of "fst x" "snd x" P CF_LAMBDA_S3_BUCKET_NAME ?w2 e] r emptied(2)
      by auto
    moreover have "x \<notin> set t"
      using tail_no_s3[OF emptied(5), of x] s3 by blast
    ultimately show ?thesis by blast
  qed
qed
theorem C10_emptying_failure_propagates_witness:
  "(ListObjectsV2 CF_BOOTSTRAP_S3_BUCKET_NAME, nothing_deployed)
     \<in> set (trace (snd (delete_cloudformation_stacks (sim no_failure) (init nothing_deployed))))
   \<and> is_s3_request (ListObjectsV2 CF_BOOTSTRAP_S3_BUCKET_NAME)
   \<and> raised (sim no_failure) (ListObjectsV2 CF_BOOTSTRAP_S3_BUCKET_NAME) nothing_deployed
       = Some no_such_bucket
   \<and> fst (delete_cloudformation_stacks (sim no_failure) (init nothing_deployed))
       = Inl no_such_bucket"
proof -
  let ?x = "(ListObjectsV2 CF_BOOTSTRAP_S3_BUCKET_NAME, nothing_deployed)"
  have m: "?x \<in> set (trace (snd (delete_cloudformation_stacks (sim no_failure)
                                    (init nothing_deployed))))"
    by (rule bootstrap_listing_issued)
  have r: "raised (sim no_failure) (fst ?x) (snd ?x) = Some no_such_bucket"
    by (simp add: raised_def sim_def no_failure_def nothing_deployed_def)
  have s3: "is_s3_request (fst ?x)" by simp
  note th = C10_emptying_failure_propagates
              [where P = "sim no_failure" and s = nothing_deployed, THEN bspec, OF m,
               THEN mp, OF s3, THEN spec, where x = no_such_bucket, THEN mp, OF r]
  from m r th[THEN conjunct1] show ?thesis by simp
qed


text \<open>
  C9. The teardown always lists the bootstrap bucket, and it lists the Lambda bucket
  whenever the emptying of the bootstrap bucket raised nothing (in the provider state
  which that emptying left). For each of the two buckets, when its listing was sent and
  answered with a response whose \<^verbatim>\<open>KeyCount\<close> counts the keys it lists, the batch
  deletions requested for that bucket in the whole run are: none when no key was listed,
  and otherwise exactly one, naming exactly the listed keys.
\<close>

theorem C9_bucket_emptying:
  "ListObjectsV2 CF_BOOTSTRAP_S3_BUCKET_NAME
     \<in> set (events (snd (delete_cloudformation_stacks P (init s))))
   \<and> (\<forall>b \<in> {CF_BOOTSTRAP_S3_BUCKET_NAME, CF_LAMBDA_S3_BUCKET_NAME}. \<forall>st r.
        (ListObjectsV2 b, st) \<in> set (trace (snd (delete_cloudformation_stacks P (init s))))
        \<and> fst (s3_list_objects_v2 P b st) = Inr r \<and> counts_its_keys r \<longrightarrow>
        filter (deletes_objects_of b) (events (snd (delete_cloudformation_stacks P (init s))))
          = (if listed_keys r = [] then [] else [DeleteObjects b (listed_keys r)]))
   \<and> (fst (empty_bucket P CF_BOOTSTRAP_S3_BUCKET_NAME (py_print msg_emptying (init s))) = None
        \<longrightarrow>
        (ListObjectsV2 CF_LAMBDA_S3_BUCKET_NAME,
         aws (snd (empty_bucket P CF_BOOTSTRAP_S3_BUCKET_NAME (py_print msg_emptying (init s)))))
          \<in> set (trace (snd (delete_cloudformation_stacks P (init s)))))"
proof -
  let ?boot = CF_BOOTSTRAP_S3_BUCKET_NAME and ?lam = CF_LAMBDA_S3_BUCKET_NAME
  let ?w = "snd (delete_cloudformation_stacks P (init s))"
  have second: "(ListObjectsV2 ?lam, aws (snd (empty_bucket P ?boot (py_print msg_emptying (init s)))))
                  \<in> set (trace ?w)"
    if ok: "fst (empty_bucket P ?boot (py_print msg_emptying (init s))) = None"
  proof -
    have m: "(ListObjectsV2 ?lam, s2) \<in> set (emptying P ?lam s2)" for s2
      using emptying_shape[of P ?lam s2] by auto
    show ?thesis
    proof (cases rule: teardown_cases[of P s])
      case (bootstrap_raises e)
      with ok show ?thesis by simp
    next
      case (lambda_raises e)
      show ?thesis unfolding lambda_raises(4) using m by simp
    next
      case (emptied t)
      show ?thesis unfolding emptied(4) using m by simp
    qed
  qed
  obtain B t where tr: "trace ?w = (Print msg_emptying, s) # emptying P ?boot s @ B @ t"
    and B: "(B = [] \<and> t = []) \<or> (\<exists>s2. B = emptying P ?lam s2)"
    and t: "\<forall>x \<in> set t. \<not> is_s3_request (fst x)"
    by (rule teardown_trace_shape)
  have ev: "events ?w = Print msg_emptying # map fst (emptying P ?boot s) @ map fst B @ map fst t"
    by (simp add: events_def tr)
  have tdel: "filter (deletes_objects_of b) (map fst t) = []" for b
    by (rule no_s3_no_deletes[OF t])
  have tlist: "(ListObjectsV2 b, st) \<notin> set t" for b st
  proof
    assume "(ListObjectsV2 b, st) \<in> set t"
    with t have "\<not> is_s3_request (fst (ListObjectsV2 b, st))" by (rule bspec)
    then show False by simp
  qed
  have fl: "filter (deletes_objects_of b) (events ?w) =
              filter (deletes_objects_of b) (map fst (emptying P ?boot s))
              @ filter (deletes_objects_of b) (map fst B)" for b
    by (simp add: ev tdel)
  have listed: "ListObjectsV2 ?boot \<in> set (events ?w)"
    by (simp add: ev listing_in_emptying del: set_map)
  have B_other: "filter (deletes_objects_of ?boot) (map fst B) = []"
  proof (cases "B = []")
    case True
    then show ?thesis by simp
  next
    case False
    with B obtain s2 where "B = emptying P ?lam s2" by blast
    then show ?thesis
      by (simp only: emptying_deletes_other[OF bucket_names_distinct])
  qed
  have B_listing: "(ListObjectsV2 b, st) \<in> set B \<Longrightarrow> b = ?lam \<and> B = emptying P ?lam st" for b st
  proof -
    assume m: "(ListObjectsV2 b, st) \<in> set B"
    then have "B \<noteq> []" by auto
    with B obtain s2 where s2: "B = emptying P ?lam s2" by blast
    from m[unfolded s2] have "b = ?lam \<and> st = s2" by (rule emptying_listing)
    with s2 show ?thesis by simp
  qed
  have A_listing: "(ListObjectsV2 b, st) \<in> set (emptying P ?boot s) \<Longrightarrow> b = ?boot \<and> st = s"
    for b st
    by (rule emptying_listing)
  have where_listed: "(ListObjectsV2 b, st) \<in> set (emptying P ?boot s) \<or> (ListObjectsV2 b, st) \<in> set B"
    if m: "(ListObjectsV2 b, st) \<in> set (trace ?w)" for b st
  proof -
    from m have "(ListObjectsV2 b, st) \<in> set (emptying P ?boot s) \<or> (ListObjectsV2 b, st) \<in> set B
                 \<or> (ListObjectsV2 b, st) \<in> set t"
      unfolding tr by simp
    with tlist[of b st] show ?thesis by simp
  qed
  have boot: "filter (deletes_objects_of ?boot) (events ?w)
                = (if listed_keys r = [] then [] else [DeleteObjects ?boot (listed_keys r)])"
    if m: "(ListObjectsV2 ?boot, st) \<in> set (trace ?w)"
      and r: "fst (s3_list_objects_v2 P ?boot st) = Inr r" "counts_its_keys r" for st r
  proof -
    have "(ListObjectsV2 ?boot, st) \<notin> set B"
      using B_listing[of ?boot st] bucket_names_distinct by blast
    with where_listed[OF m] have "(ListObjectsV2 ?boot, st) \<in> set (emptying P ?boot s)" by simp
    then have "st = s" using A_listing[of ?boot st] by simp
    with r have a: "filter (deletes_objects_of ?boot) (map fst (emptying P ?boot s))
                = (if listed_keys r = [] then [] else [DeleteObjects ?boot (listed_keys r)])"
      by (simp only: emptying_deletes)
    show ?thesis unfolding fl a B_other by simp
  qed
  have lam: "filter (deletes_objects_of ?lam) (events ?w)
                = (if listed_keys r = [] then [] else [DeleteObjects ?lam (listed_keys r)])"
    if m: "(ListObjectsV2 ?lam, st) \<in> set (trace ?w)"
      and r: "fst (s3_list_objects_v2 P ?lam st) = Inr r" "counts_its_keys r" for st r
  proof -
    have "(ListObjectsV2 ?lam, st) \<notin> set (emptying P ?boot s)"
      using A_listing[of ?lam st] bucket_names_distinct by auto
    with where_listed[OF m] have "(ListObjectsV2 ?lam, st) \<in> set B" by simp
    then have s2: "B = emptying P ?lam st" using B_listing[of ?lam st] by simp
    from r have b: "filter (deletes_objects_of ?lam) (map fst B)
                = (if listed_keys r = [] then [] else [DeleteObjects ?lam (listed_keys r)])"
      unfolding s2 by (simp only: emptying_deletes)
    have a: "filter (deletes_objects_of ?lam) (map fst (emptying P ?boot s)) = []"
      by (rule emptying_deletes_other[OF bucket_names_distinct[symmetric]])
    show ?thesis unfolding fl a b by simp
  qed
  show ?thesis
  proof (intro conjI ballI allI impI)
    show "ListObjectsV2 ?boot \<in> set (events ?w)" by (rule listed)
  next
    fix b st r
    assume b: "b \<in> {?boot, ?lam}"
      and h: "(ListObjectsV2 b, st) \<in> set (trace ?w)
              \<and> fst (s3_list_objects_v2 P b st) = Inr r \<and> counts_its_keys r"
    from b have "b = ?boot \<or> b = ?lam" by simp
    then show "filter (deletes_objects_of b) (events ?w)
                 = (if listed_keys r = [] then [] else [DeleteObjects b (listed_keys r)])"
    proof
      assume "b = ?boot"
      with h boot[of st r] show ?thesis by simp
    next
      assume "b = ?lam"
      with h lam[of st r] show ?thesis by simp
    qed
  next
    assume "fst (empty_bucket P ?boot (py_print msg_emptying (init s))) = None"
    then show "(ListObjectsV2 ?lam, aws (snd (empty_bucket P ?boot (py_print msg_emptying (init s)))))
                 \<in> set (trace ?w)"
      by (rule second)
  qed
qed

theorem C9_bucket_emptying_witness:
  "(ListObjectsV2 CF_BOOTSTRAP_S3_BUCKET_NAME, all_deployed)
     \<in> set (trace (snd (delete_cloudformation_stacks (sim no_failure) (init all_deployed))))
   \<and> fst (s3_list_objects_v2 (sim no_failure) CF_BOOTSTRAP_S3_BUCKET_NAME all_deployed)
       = Inr \<lparr>KeyCount = 1, Contents = Some [CF_TEMPLATE_S3]\<rparr>
   \<and> counts_its_keys \<lparr>KeyCount = 1, Contents = Some [CF_TEMPLATE_S3]\<rparr>
   \<and> filter (deletes_objects_of CF_BOOTSTRAP_S3_BUCKET_NAME)
        (events (snd (delete_cloudformation_stacks (sim no_failure) (init all_deployed))))
       = [DeleteObjects CF_BOOTSTRAP_S3_BUCKET_NAME [CF_TEMPLATE_S3]]
   \<and> fst (empty_bucket (sim no_failure) CF_BOOTSTRAP_S3_BUCKET_NAME
             (py_print msg_emptying (init all_deployed))) = None
   \<and> (ListObjectsV2 CF_LAMBDA_S3_BUCKET_NAME, bootstrap_emptied)
        \<in> set (trace (snd (delete_cloudformation_stacks (sim no_failure) (init all_deployed))))
   \<and> fst (s3_list_objects_v2 (sim no_failure) CF_LAMBDA_S3_BUCKET_NAME bootstrap_emptied)
       = Inr \<lparr>KeyCount = 2, Contents = Some [CF_LAMBDA_SOURCE, CF_TEMPLATE_LAMBDA]\<rparr>
   \<and> counts_its_keys \<lparr>KeyCount = 2, Contents = Some [CF_LAMBDA_SOURCE, CF_TEMPLATE_LAMBDA]\<rparr>
   \<and> filter (deletes_objects_of CF_LAMBDA_S3_BUCKET_NAME)
        (events (snd (delete_cloudformation_stacks (sim no_failure) (init all_deployed))))
       = [DeleteObjects CF_LAMBDA_S3_BUCKET_NAME [CF_LAMBDA_SOURCE, CF_TEMPLATE_LAMBDA]]"
proof -
  let ?boot = CF_BOOTSTRAP_S3_BUCKET_NAME and ?lam = CF_LAMBDA_S3_BUCKET_NAME
  let ?r = "\<lparr>KeyCount = 1, Contents = Some [CF_TEMPLATE_S3]\<rparr>"
  let ?r2 = "\<lparr>KeyCount = 2, Contents = Some [CF_LAMBDA_SOURCE, CF_TEMPLATE_LAMBDA]\<rparr>"
  note th = C9_bucket_emptying[where P = "sim no_failure" and s = all_deployed]
  have m: "(ListObjectsV2 ?boot, all_deployed)
     \<in> set (trace (snd (delete_cloudformation_stacks (sim no_failure) (init all_deployed))))"
    by (rule bootstrap_listing_issued)
  have l: "fst (s3_list_objects_v2 (sim no_failure) ?boot all_deployed) = Inr ?r"
    by (simp add: sim_def no_failure_def all_deployed_def bucket_names_distinct)
  have c: "counts_its_keys ?r"
    by (simp add: counts_its_keys_def listed_keys_def)
  have b: "?boot \<in> {?boot, ?lam}"
    by simp
  note d = th[THEN conjunct2, THEN conjunct1, THEN bspec, OF b,
              THEN spec, where x = all_deployed, THEN spec, where x = ?r, THEN mp,
              OF conjI[OF m conjI[OF l c]]]
  have ok: "fst (empty_bucket (sim no_failure) ?boot (py_print msg_emptying (init all_deployed)))
              = None"
    by (simp add: empty_bucket_def sim_run no_failure_def all_deployed_def names)
  have m2: "(ListObjectsV2 ?lam, bootstrap_emptied)
     \<in> set (trace (snd (delete_cloudformation_stacks (sim no_failure) (init all_deployed))))"
    unfolding bootstrap_emptied_def
    by (rule th[THEN conjunct2, THEN conjunct2, THEN mp, OF ok])
  have l2: "fst (s3_list_objects_v2 (sim no_failure) ?lam bootstrap_emptied) = Inr ?r2"
    by (simp add: bootstrap_emptied_def empty_bucket_def sim_run no_failure_def all_deployed_def
          names)
  have c2: "counts_its_keys ?r2"
    by (simp add: counts_its_keys_def listed_keys_def)
  have b2: "?lam \<in> {?boot, ?lam}"
    by simp
  note d2 = th[THEN conjunct2, THEN conjunct1, THEN bspec, OF b2,
               THEN spec, where x = bootstrap_emptied, THEN spec, where x = ?r2, THEN mp,
               OF conjI[OF m2 conjI[OF l2 c2]]]
  have e1: "filter (deletes_objects_of ?boot)
        (events (snd (delete_cloudformation_stacks (sim no_failure) (init all_deployed))))
       = [DeleteObjects ?boot [CF_TEMPLATE_S3]]"
    using d by (simp add: listed_keys_def)
  have e2: "filter (deletes_objects_of ?lam)
        (events (snd (delete_cloudformation_stacks (sim no_failure) (init all_deployed))))
       = [DeleteObjects ?lam [CF_LAMBDA_SOURCE, CF_TEMPLATE_LAMBDA]]"
    using d2 by (simp add: listed_keys_def)
  show ?thesis
    by (intro conjI m l c e1 ok m2 l2 c2 e2)
qed

lemma teardown_lists_before_deleting:
  assumes e: "events (snd (delete_cloudformation_stacks P (init s))) = pre @ DeleteStack n # post"
  shows "ListObjectsV2 CF_BOOTSTRAP_S3_BUCKET_NAME \<in> set pre
         \<and> ListObjectsV2 CF_LAMBDA_S3_BUCKET_NAME \<in> set pre
         \<and> (\<forall>ev \<in> set post. \<not> is_s3_request ev)"
proof -
  let ?boot = CF_BOOTSTRAP_S3_BUCKET_NAME and ?lam = CF_LAMBDA_S3_BUCKET_NAME
  let ?w = "snd (delete_cloudformation_stacks P (init s))"
  obtain B t where tr: "trace ?w = (Print msg_emptying, s) # emptying P ?boot s @ B @ t"
    and B: "(B = [] \<and> t = []) \<or> (\<exists>s2. B = emptying P ?lam s2)"
    and t: "\<forall>x \<in> set t. \<not> is_s3_request (fst x)"
    by (rule teardown_trace_shape)
  let ?H = "Print msg_emptying # map fst (emptying P ?boot s) @ map fst B"
  have ev: "events ?w = ?H @ map fst t"
    by (simp add: events_def tr)
  have noDel: "DeleteStack n \<notin> set ?H"
    using B emptying_quiet[of _ P ?boot s] emptying_quiet[of _ P ?lam] by fastforce
  from split_phases[OF ev[unfolded e, symmetric] noDel]
  obtain us where us: "pre = ?H @ us" "map fst t = us @ DeleteStack n # post" by blast
  from us(2) have "t \<noteq> []" by auto
  with B obtain s2 where "B = emptying P ?lam s2" by auto
  then have "ListObjectsV2 ?lam \<in> set (map fst B)" by (simp only: listing_in_emptying)
  moreover have "ListObjectsV2 ?boot \<in> set (map fst (emptying P ?boot s))"
    by (rule listing_in_emptying)
  moreover have "\<forall>ev \<in> set post. \<not> is_s3_request ev"
  proof
    fix ev assume "ev \<in> set post"
    with us(2) have "ev \<in> set (map fst t)" by simp
    with t show "\<not> is_s3_request ev" by auto
  qed
  ultimately show ?thesis using us(1) by simp
qed

lemma filter_not_in_take:
  assumes "distinct ks"
  shows "filter (\<lambda>k. k \<notin> set (take n ks)) ks = drop n ks"
proof -
  have d: "set (take n ks) \<inter> set (drop n ks) = {}"
    using assms by (simp add: set_take_disj_set_drop_if_distinct)
  have "filter (\<lambda>k. k \<notin> set (take n ks)) (take n ks @ drop n ks) = drop n ks"
    unfolding filter_append using d by (auto simp: filter_empty_conv filter_id_conv)
  then show ?thesis by simp
qed

lemma truncated_listing_leaves_objects:
  assumes "2 \<le> page" "page < length ks" "distinct ks"
  shows "\<exists>st. (DeleteStack CF_STACKNAME_BOOTSTRAP_S3, st)
              \<in> set (trace (snd (delete_cloudformation_stacks (paged page no_failure)
                    (init (overfull\<lparr>buckets := (buckets overfull)(CF_BOOTSTRAP_S3_BUCKET_NAME \<mapsto> ks)\<rparr>)))))
            \<and> buckets st CF_BOOTSTRAP_S3_BUCKET_NAME = Some (drop page ks)
            \<and> drop page ks \<noteq> []"
proof -
  from assms have "take page ks \<noteq> []" by auto
  with assms show ?thesis
    by (cases "drop page ks")
       (simp_all add: delete_cloudformation_stacks_def empty_bucket_def delete_cf_stack_def sim_run
          paged_def no_failure_def overfull_def names except_print_return_raises
          filter_not_in_take min_def)
qed

lemma truncated_listing_at_1000:
  assumes "1000 < length ks" "distinct ks"
  shows "\<exists>st. (DeleteStack CF_STACKNAME_BOOTSTRAP_S3, st)
              \<in> set (trace (snd (delete_cloudformation_stacks (paged 1000 no_failure)
                    (init (overfull\<lparr>buckets := (buckets overfull)(CF_BOOTSTRAP_S3_BUCKET_NAME \<mapsto> ks)\<rparr>)))))
            \<and> buckets st CF_BOOTSTRAP_S3_BUCKET_NAME = Some (drop 1000 ks)
            \<and> drop 1000 ks \<noteq> []"
  using assms by (intro truncated_listing_leaves_objects) simp_all


text \<open>
  C2. By \<open>teardown_lists_before_deleting\<close> the order holds for every provider: before
  any stack-deletion request both buckets have been listed, and after it no request to
  the object store is sent. But the teardown lists each bucket once and deletes the keys
  of that one response. By \<open>truncated_listing_leaves_objects\<close>, for every page size
  (\<open>truncated_listing_at_1000\<close>: for the 1000 of the service) and every bootstrap bucket
  that holds more keys than a page, the deletion of the bootstrap stack is requested while
  the bucket holds the keys beyond the first page. In the run below the bootstrap bucket
  holds three objects and a response holds two keys: the first two objects are deleted,
  and each of the three stack-deletion requests, the one for the stack of the bootstrap
  bucket among them, is sent while that bucket still holds the third.
\<close>

theorem C2_truncated_listing_leaves_objects:
  "events (snd (delete_cloudformation_stacks (paged 2 no_failure) (init overfull))) =
     [Print msg_emptying,
      ListObjectsV2 CF_BOOTSTRAP_S3_BUCKET_NAME,
      DeleteObjects CF_BOOTSTRAP_S3_BUCKET_NAME [''object0'', ''object1''],
      ListObjectsV2 CF_LAMBDA_S3_BUCKET_NAME,
      DeleteObjects CF_LAMBDA_S3_BUCKET_NAME [CF_LAMBDA_SOURCE, CF_TEMPLATE_LAMBDA],
      Print (msg_deleting CF_STACKNAME_LAMBDA),
      DeleteStack CF_STACKNAME_LAMBDA,
      WaiterWait stack_delete_complete CF_STACKNAME_LAMBDA 5 24,
      Print (msg_deleting CF_STACKNAME_LAMBDA_S3),
      DeleteStack CF_STACKNAME_LAMBDA_S3,
      WaiterWait stack_delete_complete CF_STACKNAME_LAMBDA_S3 5 12,
      Print (msg_deleting CF_STACKNAME_BOOTSTRAP_S3),
      DeleteStack CF_STACKNAME_BOOTSTRAP_S3,
      WaiterWait stack_delete_complete CF_STACKNAME_BOOTSTRAP_S3 5 12]
   \<and> map (\<lambda>x. (fst x, buckets (snd x) CF_BOOTSTRAP_S3_BUCKET_NAME))
        (filter (\<lambda>x. is_DeleteStack (fst x))
           (trace (snd (delete_cloudformation_stacks (paged 2 no_failure) (init overfull)))))
       = [(DeleteStack CF_STACKNAME_LAMBDA, Some [''object2'']),
          (DeleteStack CF_STACKNAME_LAMBDA_S3, Some [''object2'']),
          (DeleteStack CF_STACKNAME_BOOTSTRAP_S3, Some [''object2''])]"
  by (simp add: delete_cloudformation_stacks_def empty_bucket_def delete_cf_stack_def sim_run
        paged_def no_failure_def overfull_def names except_print_return_raises)


section \<open>What holds of every teardown and of every failed build\<close>

text \<open>
  For every provider: the stack deletions of a teardown are requested in the order deploy
  stack, build-storage stack, bootstrap-storage stack, up to the first step that raises;
  the teardown either returns 0 or is left by an exception, so its \<^verbatim>\<open>return -1\<close> is
  never reached; and when the bootstrap/build stage does not return 0, the program ends
  in the world that stage left, with an exit status other than 0.
\<close>

lemma handle_raises:
  "h = No_handler \<or> h = Delete_wait_handler True \<Longrightarrow> \<exists>e'. fst (handle h e w) = Inl e'"
  by (cases "is_WaiterError e") (auto simp: except_print_return_raises)

lemma run_steps_never_minus_one:
  assumes "\<forall>st \<in> set steps. snd (snd st) \<in> {No_handler, Delete_wait_handler True}"
  shows "fst (run_steps P steps w) = Inr 0 \<or> (\<exists>e. fst (run_steps P steps w) = Inl e)"
  using assms
proof (induction steps arbitrary: w)
  case Nil
  show ?case by simp
next
  case (Cons st steps)
  obtain line ev h where st: "st = (line, ev, h)" by (cases st) auto
  let ?w1 = "case line of None \<Rightarrow> w | Some m \<Rightarrow> py_print m w"
  let ?w2 = "\<lparr>aws = snd (perform P ev (aws ?w1)), trace = trace ?w1 @ [(ev, aws ?w1)]\<rparr>"
  from Cons.prems st have h: "h = No_handler \<or> h = Delete_wait_handler True" by simp
  show ?case
  proof (cases "fst (perform P ev (aws ?w1))")
    case None
    have "\<forall>st \<in> set steps. snd (snd st) \<in> {No_handler, Delete_wait_handler True}"
      using Cons.prems by simp
    from Cons.IH[OF this, of ?w2] None show ?thesis by (simp add: st request_perform)
  next
    case (Some e)
    with handle_raises[OF h, of e ?w2] show ?thesis
      by (simp add: st request_perform)
  qed
qed

lemma teardown_never_returns_failure:
  "fst (delete_cloudformation_stacks P (init s)) = Inr 0
   \<or> (\<exists>e. fst (delete_cloudformation_stacks P (init s)) = Inl e)"
proof (cases rule: teardown_cases[of P s])
  case (bootstrap_raises e)
  then show ?thesis by simp
next
  case (lambda_raises e)
  then show ?thesis by simp
next
  case (emptied t)
  have "\<forall>st \<in> set teardown_steps. snd (snd st) \<in> {No_handler, Delete_wait_handler True}"
    by (simp add: teardown_steps_def delete_steps_def)
  from run_steps_never_minus_one[OF this] emptied(3) show ?thesis by simp
qed

lemma teardown_deletion_order:
  "prefix (filter is_DeleteStack (events (snd (delete_cloudformation_stacks P (init s)))))
     [DeleteStack CF_STACKNAME_LAMBDA, DeleteStack CF_STACKNAME_LAMBDA_S3,
      DeleteStack CF_STACKNAME_BOOTSTRAP_S3]"
proof -
  let ?w = "snd (delete_cloudformation_stacks P (init s))"
  have quiet: "filter is_DeleteStack (map fst (emptying P b s')) = []" for b s'
    using emptying_quiet[of _ P b s'] by (auto simp: filter_empty_conv)
  show ?thesis
  proof (cases rule: teardown_cases[of P s])
    case (bootstrap_raises e)
    then show ?thesis by (simp add: events_def quiet)
  next
    case (lambda_raises e)
    then show ?thesis by (simp add: events_def quiet)
  next
    case (emptied t)
    let ?s3 = "aws (snd (empty_bucket P CF_LAMBDA_S3_BUCKET_NAME
                 (snd (empty_bucket P CF_BOOTSTRAP_S3_BUCKET_NAME (py_print msg_emptying (init s))))))"
    have "filter is_DeleteStack (map fst t)
            = filter is_DeleteStack (map fst (filter (\<lambda>x. is_request (fst x)) t))"
      by (induction t) (auto simp: is_DeleteStack_request)
    also have "\<dots> = filter is_DeleteStack (map fst (issued P teardown_plan ?s3))"
      by (simp only: emptied(5))
    finally have t: "filter is_DeleteStack (map fst t)
                      = filter is_DeleteStack (map fst (issued P teardown_plan ?s3))" .
    have "prefix (filter is_DeleteStack (map fst (issued P teardown_plan ?s3)))
            (filter is_DeleteStack teardown_plan)"
      by (rule filter_mono_prefix[OF issued_prefix])
    then have "prefix (filter is_DeleteStack (map fst t))
            [DeleteStack CF_STACKNAME_LAMBDA, DeleteStack CF_STACKNAME_LAMBDA_S3,
             DeleteStack CF_STACKNAME_BOOTSTRAP_S3]"
      unfolding t by (simp add: teardown_plan_def)
    with emptied(4) show ?thesis by (simp add: events_def quiet)
  qed
qed

lemma main_stops_after_failed_build:
  assumes "fst (create_s3_bucket P (splash (init s))) \<noteq> Inr 0"
  shows "snd (main P False (init s)) = snd (create_s3_bucket P (splash (init s)))
         \<and> exit_status (fst (main P False (init s))) \<noteq> 0"
proof (cases "create_s3_bucket P (splash (init s))")
  case (Pair r w)
  with assms show ?thesis
    by (cases r) (simp_all add: main_def)
qed

section \<open>Runs in which a handler raises\<close>

text \<open>
  The handlers of the waits and of the uploads, and the general branch of the handler of
  a stack creation, evaluate \<^verbatim>\<open>'ERROR: ' + e\<close> with \<open>e\<close> the caught exception object. By
  \<open>except_print_return_raises\<close> and \<open>except_ClientError_create_eq\<close> the addition raises
  \<^verbatim>\<open>TypeError\<close> before anything is printed, and the \<^verbatim>\<open>return -1\<close> that follows is
  never reached. The four runs below evaluate the script on the simulated provider at one
  failure each.
\<close>

lemmas failures = fail_at_def max_attempts_exceeded_def validation_error_def
  bootstrap_poll_timeout_def bootstrap_create_rejected_def deploy_poll_timeout_def
  deploy_delete_timeout_def


text \<open>
  C3. The wait for the bootstrap stack exhausts its attempts (\<^verbatim>\<open>WaiterError\<close>). The
  stage does not return a failure result: \<^verbatim>\<open>TypeError\<close> leaves \<^verbatim>\<open>create_s3_bucket\<close>
  and the program. The deploy stage is not entered (the events end with the wait) and the
  exit status is 1.
\<close>

theorem C3_bootstrap_poll_timeout_raises:
  "fst (create_s3_bucket (sim bootstrap_poll_timeout) (init nothing_deployed)) = Inl TypeError
   \<and> fst (main (sim bootstrap_poll_timeout) False (init nothing_deployed)) = Uncaught TypeError
   \<and> exit_status (fst (main (sim bootstrap_poll_timeout) False (init nothing_deployed))) = 1
   \<and> events (snd (main (sim bootstrap_poll_timeout) False (init nothing_deployed))) =
       events (splash (init nothing_deployed)) @
       [Print (msg_creating_bucket CF_STACKNAME_BOOTSTRAP_S3 CF_BOOTSTRAP_S3_BUCKET_NAME),
        CreateStack CF_STACKNAME_BOOTSTRAP_S3
          (TemplateBody (CF_TEMPLATE_BOOTSTRAP_S3 CF_BOOTSTRAP_S3_BUCKET_NAME)) [],
        WaiterWait stack_create_complete CF_STACKNAME_BOOTSTRAP_S3 5 12]"
  by (simp add: main_def splash_def create_s3_bucket_def sim_run failures nothing_deployed_def
        names except_print_return_raises)


text \<open>
  C4. The wait for the deploy stack exhausts its attempts (\<^verbatim>\<open>WaiterError\<close>): no error
  line is printed and \<^verbatim>\<open>create_lambda\<close> does not return, \<^verbatim>\<open>TypeError\<close> leaves it.
  And when the upload of the function's code fails (here: the bucket does not exist),
  the exception of the upload is not a \<^verbatim>\<open>ClientError\<close>: no handler is entered, no
  error line is printed and the exception leaves \<^verbatim>\<open>create_lambda\<close>.
\<close>

theorem C4_deploy_poll_timeout_raises:
  "fst (create_lambda (sim deploy_poll_timeout) (init built)) = Inl TypeError
   \<and> events (snd (create_lambda (sim deploy_poll_timeout) (init built))) =
       [Print (msg_uploading CF_LAMBDA_SOURCE CF_LAMBDA_S3_BUCKET_NAME),
        UploadFile CF_LAMBDA_SOURCE CF_LAMBDA_S3_BUCKET_NAME CF_LAMBDA_SOURCE,
        Print (msg_creating CF_STACKNAME_LAMBDA),
        CreateStack CF_STACKNAME_LAMBDA
          (TemplateURL (s3_url CF_LAMBDA_S3_BUCKET_NAME CF_TEMPLATE_LAMBDA)) [CAPABILITY_IAM],
        WaiterWait stack_create_complete CF_STACKNAME_LAMBDA 5 24]
   \<and> filter is_error_line (events (snd (create_lambda (sim deploy_poll_timeout) (init built)))) = []
   \<and> fst (create_lambda (sim no_failure) (init nothing_deployed)) = Inl upload_failed
   \<and> events (snd (create_lambda (sim no_failure) (init nothing_deployed))) =
       [Print (msg_uploading CF_LAMBDA_SOURCE CF_LAMBDA_S3_BUCKET_NAME),
        UploadFile CF_LAMBDA_SOURCE CF_LAMBDA_S3_BUCKET_NAME CF_LAMBDA_SOURCE]"
  by (simp add: create_lambda_def sim_run failures built_def nothing_deployed_def no_failure_def
        upload_failed_def names except_print_return_raises msg_uploading_def msg_creating_def)


text \<open>
  C6. A name collision (error code \<^verbatim>\<open>AlreadyExistsException\<close>) prints the provider's
  message and returns -1. A rejection with any other code does not surface the provider's
  message and does not return: \<^verbatim>\<open>TypeError\<close> leaves \<^verbatim>\<open>create_s3_bucket\<close>.
\<close>

theorem C6_create_rejection_raises:
  "fst (create_s3_bucket (sim no_failure) (init all_deployed)) = Inr (- 1)
   \<and> events (snd (create_s3_bucket (sim no_failure) (init all_deployed))) =
       [Print (msg_creating_bucket CF_STACKNAME_BOOTSTRAP_S3 CF_BOOTSTRAP_S3_BUCKET_NAME),
        CreateStack CF_STACKNAME_BOOTSTRAP_S3
          (TemplateBody (CF_TEMPLATE_BOOTSTRAP_S3 CF_BOOTSTRAP_S3_BUCKET_NAME)) [],
        Print already_exists_line]
   \<and> fst (create_s3_bucket (sim bootstrap_create_rejected) (init nothing_deployed)) = Inl TypeError
   \<and> events (snd (create_s3_bucket (sim bootstrap_create_rejected) (init nothing_deployed))) =
       [Print (msg_creating_bucket CF_STACKNAME_BOOTSTRAP_S3 CF_BOOTSTRAP_S3_BUCKET_NAME),
        CreateStack CF_STACKNAME_BOOTSTRAP_S3
          (TemplateBody (CF_TEMPLATE_BOOTSTRAP_S3 CF_BOOTSTRAP_S3_BUCKET_NAME)) []]"
  by (simp add: create_s3_bucket_def sim_run failures nothing_deployed_def all_deployed_def
        no_failure_def names except_ClientError_create_eq already_exists_line_def)
text \<open>
  C1. The wait for the deletion of the deploy stack exhausts its attempts. The two storage
  stacks are not touched, but the teardown does not return a failure result:
  \<^verbatim>\<open>TypeError\<close> leaves \<^verbatim>\<open>delete_cf_stack\<close> and \<^verbatim>\<open>delete_cloudformation_stacks\<close>.
\<close>

theorem C1_deploy_delete_timeout_raises:
  "fst (delete_cloudformation_stacks (sim deploy_delete_timeout) (init all_deployed)) = Inl TypeError
   \<and> events (snd (delete_cloudformation_stacks (sim deploy_delete_timeout) (init all_deployed))) =
       [Print msg_emptying,
        ListObjectsV2 CF_BOOTSTRAP_S3_BUCKET_NAME,
        DeleteObjects CF_BOOTSTRAP_S3_BUCKET_NAME [CF_TEMPLATE_S3],
        ListObjectsV2 CF_LAMBDA_S3_BUCKET_NAME,
        DeleteObjects CF_LAMBDA_S3_BUCKET_NAME [CF_LAMBDA_SOURCE, CF_TEMPLATE_LAMBDA],
        Print (msg_deleting CF_STACKNAME_LAMBDA),
        DeleteStack CF_STACKNAME_LAMBDA,
        WaiterWait stack_delete_complete CF_STACKNAME_LAMBDA 5 24]"
  by (simp add: delete_cloudformation_stacks_def empty_bucket_def delete_cf_stack_def sim_run
        failures all_deployed_def names except_print_return_raises)

end
